theory Spec2Isabelle
  imports Main "HOL-Library.Word"
begin

section \<open>Go library helpers used by the controller\<close>

text \<open>Go errors are values carrying a message.\<close>

datatype error = Err string

definition msg :: "error \<Rightarrow> string" where
  "msg e = (case e of Err s \<Rightarrow> s)"

text \<open>
  \<^verbatim>\<open>fmt.Sprintf\<close> with the verbs \<^verbatim>\<open>%d\<close> and \<^verbatim>\<open>%x\<close>: digits of a number in base 10 and 16,
  a minus sign for a negative number, and zero padding to a minimal width for
  \<^verbatim>\<open>%02x\<close> and \<^verbatim>\<open>%04x\<close>. Applied to a string, \<^verbatim>\<open>%x\<close> prints two hexadecimal digits per
  byte.
\<close>

definition digit_char :: "nat \<Rightarrow> char" where
  "digit_char d = ''0123456789abcdef'' ! d"

function fmt_d :: "nat \<Rightarrow> string" where
  "fmt_d n = (if n < 10 then [digit_char n] else fmt_d (n div 10) @ [digit_char (n mod 10)])"
  by pat_completeness auto
termination
  by (relation "measure id") auto

declare fmt_d.simps [simp del]

definition fmt_d_int :: "int \<Rightarrow> string" where
  "fmt_d_int i = (if i < 0 then CHR ''-'' # fmt_d (nat (- i)) else fmt_d (nat i))"

function fmt_x :: "nat \<Rightarrow> string" where
  "fmt_x n = (if n < 16 then [digit_char n] else fmt_x (n div 16) @ [digit_char (n mod 16)])"
  by pat_completeness auto
termination
  by (relation "measure id") auto

declare fmt_x.simps [simp del]

definition fmt_0x :: "nat \<Rightarrow> nat \<Rightarrow> string" where
  "fmt_0x w n = replicate (w - length (fmt_x n)) CHR ''0'' @ fmt_x n"

text \<open>
  Go's \<^verbatim>\<open>int\<close> has 64 bits on the platforms of the runtime. Its arithmetic wraps around,
  and so does the conversion of a \<^verbatim>\<open>uint64\<close> to it: \<open>go_int i\<close> is the \<^verbatim>\<open>int\<close> that the
  mathematical result \<open>i\<close> becomes.
\<close>

definition go_int :: "int \<Rightarrow> int" where
  "go_int i = sint (word_of_int i :: 64 word)"

definition fmt_x_int :: "int \<Rightarrow> string" where
  "fmt_x_int i = (if i < 0 then CHR ''-'' # fmt_x (nat (- i)) else fmt_x (nat i))"

definition fmt_0x_int :: "nat \<Rightarrow> int \<Rightarrow> string" where
  "fmt_0x_int w i = (if i < 0 then CHR ''-'' # fmt_0x (w - 1) (nat (- i)) else fmt_0x w (nat i))"

definition fmt_x_string :: "string \<Rightarrow> string" where
  "fmt_x_string s = concat (map (\<lambda>c. fmt_0x 2 (of_char c)) s)"

text \<open>\<^verbatim>\<open>strconv.FormatBool\<close>, \<^verbatim>\<open>strings.Join\<close>, \<^verbatim>\<open>strings.HasPrefix\<close>, \<^verbatim>\<open>strings.Trim\<close>.\<close>

definition FormatBool :: "bool \<Rightarrow> string" where
  "FormatBool b = (if b then ''true'' else ''false'')"

fun Join :: "string list \<Rightarrow> string \<Rightarrow> string" where
  "Join [] sep = []"
| "Join [s] sep = s"
| "Join (s # t # ss) sep = s @ sep @ Join (t # ss) sep"

definition HasPrefix :: "string \<Rightarrow> string \<Rightarrow> bool" where
  "HasPrefix s p = (take (length p) s = p)"

definition Trim :: "string \<Rightarrow> string \<Rightarrow> string" where
  "Trim s cutset =
     rev (dropWhile (\<lambda>c. c \<in> set cutset) (rev (dropWhile (\<lambda>c. c \<in> set cutset) s)))"

text \<open>
  \<^verbatim>\<open>strconv.Atoi\<close>: an optional sign, then at least one decimal digit and nothing else; a
  value outside the 64-bit \<^verbatim>\<open>int\<close> range is an error.
\<close>

definition is_digit :: "char \<Rightarrow> bool" where
  "is_digit c = (48 \<le> (of_char c :: nat) \<and> (of_char c :: nat) \<le> 57)"

definition digits_val :: "string \<Rightarrow> nat" where
  "digits_val ds = foldl (\<lambda>a c. 10 * a + (of_char c - 48)) 0 ds"

definition Atoi :: "string \<Rightarrow> int option" where
  "Atoi s =
     (let (neg, ds) =
            (case s of
               [] \<Rightarrow> (False, [])
             | c # r \<Rightarrow> if c = CHR ''-'' then (True, r)
                        else if c = CHR ''+'' then (False, r) else (False, s))
      in if ds = [] \<or> \<not> list_all is_digit ds then None
         else let v = (if neg then - int (digits_val ds) else int (digits_val ds))
              in if v < - (2 ^ 63) \<or> 2 ^ 63 - 1 < v then None else Some v)"

section \<open>Configuration and architecture data\<close>

text \<open>\<^verbatim>\<open>Param\<close>: one kernel parameter, a key and a value.\<close>

datatype Param = Param (Key: string) (Value: string)

datatype SharedFS_t = NoSharedFS | Virtio9P | VirtioFS

datatype BlockDriver = VirtioSCSI | VirtioBlock | VirtioBlockCCW | Nvdimm | OtherBlockDriver string

text \<open>The fields of \<^verbatim>\<open>HypervisorConfig\<close> that the controller code below reads.\<close>

record HypervisorConfig =
  Debug :: bool
  NumVCPUs :: "32 word"
  DefaultMaxVCPUs :: "32 word"
  MemorySize :: "32 word"
  MemSlots :: "32 word"
  DefaultBridges :: "32 word"
  UseVSock :: bool
  KernelParams :: "Param list"
  SharedFS :: SharedFS_t
  FileBackedMemRootDir :: string
  MemoryPath :: string
  BootToBeTemplate :: bool
  BootFromTemplate :: bool
  HugePages :: bool
  MemPrealloc :: bool
  Realtime :: bool
  Mlock :: bool
  BlockDeviceDriver :: BlockDriver
  BlockDeviceCacheSet :: bool
  BlockDeviceCacheDirect :: bool
  BlockDeviceCacheNoflush :: bool
  EnableIOThreads :: bool
  DisableNestingChecks :: bool
  DisableVhostNet :: bool
  cfg_HotplugVFIOOnRootBus :: bool
  MachineAccelerators :: string
  EntropySource :: string
  VMid :: string

text \<open>\<^verbatim>\<open>govmmQemu.Machine\<close>.\<close>

record Machine =
  machine_Type :: string
  machine_Options :: string

datatype BridgeType = PCI | PCIE | CCW

text \<open>
  Modelled from the spec: \<^verbatim>\<open>types.Bridge\<close> with its methods \<^verbatim>\<open>AddDevice\<close> and
  \<^verbatim>\<open>RemoveDevice\<close> (package \<^verbatim>\<open>virtcontainers/types\<close>, which is not among the files
  verified here). A bridge has a type, an id, a host address and a map from slot index to
  device id; slot indices are unique within a bridge and slot 0 is reserved.
  \<^verbatim>\<open>MaxCapacity\<close> is the number of the last usable slot; its value per bus type is fixed in
  the same package and is kept as a field. The map is an association list with the entries
  in the order of their insertion.
\<close>

record Bridge =
  bridge_Type :: BridgeType
  bridge_ID :: string
  bridge_Addr :: int
  Devices :: "(nat \<times> string) list"
  MaxCapacity :: nat

text \<open>
  Modelled from the spec: allocation returns the first free slot, searching from slot 1
  (slot 0 is reserved), and records the device id there; a full bridge is an error.
\<close>

definition AddDevice :: "Bridge \<Rightarrow> string \<Rightarrow> error + (nat \<times> Bridge)" where
  "AddDevice b ID =
     (case find (\<lambda>i. map_of (Devices b) i = None) [1 ..< Suc (MaxCapacity b)] of
        None \<Rightarrow> Inl (Err ''Unable to hot plug device on bridge: there are no empty slots'')
      | Some slot_addr \<Rightarrow> Inr (slot_addr, b\<lparr>Devices := Devices b @ [(slot_addr, ID)]\<rparr>))"

text \<open>
  Modelled from the spec: release removes the mapping of the device id; an id that is not
  on the bridge is an error.
\<close>

definition RemoveDevice :: "Bridge \<Rightarrow> string \<Rightarrow> error + Bridge" where
  "RemoveDevice b ID =
     (case find (\<lambda>(slot_addr, devID). devID = ID) (Devices b) of
        None \<Rightarrow> Inl (Err (''Unable to hot unplug device '' @ ID @ '': not present on bridge''))
      | Some (slot_addr, devID) \<Rightarrow>
          Inr (b\<lparr>Devices := filter (\<lambda>(k, v). k \<noteq> slot_addr) (Devices b)\<rparr>))"

text \<open>
  The fields of \<^verbatim>\<open>qemuArchBase\<close>; \<^verbatim>\<open>qemuPaths\<close> is a Go map from machine type to binary
  path, kept as an association list. The controller holds its architecture object behind
  the interface \<^verbatim>\<open>qemuArch\<close>; the object is built by \<^verbatim>\<open>newQemuArch\<close> on top of this base
  implementation. The methods of the base implementation are the functions below. The
  method \<^verbatim>\<open>supportGuestMemoryHotplug\<close> is answered by the architecture object, and the
  field \<^verbatim>\<open>guestMemoryHotplug\<close> holds its answer: the base implementation answers yes, an
  architecture that redefines the method may answer no.
\<close>

record qemuArchBase =
  machineType :: string
  nestedRun :: bool
  vhost :: bool
  qemuPaths :: "(string \<times> string) list"
  supportedQemuMachines :: "Machine list"
  kernelParamsNonDebug :: "Param list"
  kernelParamsDebug :: "Param list"
  kernelParams :: "Param list"
  Bridges :: "Bridge list"
  guestMemoryHotplug :: bool

section \<open>Controller state\<close>

text \<open>\<^verbatim>\<open>CPUDevice\<close>: a hot-added CPU, identified by its id.\<close>

datatype CPUDevice = CPUDevice (cpu_ID: string)

text \<open>\<^verbatim>\<open>QemuState\<close>, the persisted controller state.\<close>

record QemuState =
  state_Bridges :: "Bridge list"
  HotpluggedVCPUs :: "CPUDevice list"
  HotpluggedMemory :: int
  UUID :: string
  HotplugVFIOOnRootBus :: bool
  VirtiofsdPid :: int

text \<open>The parts of \<^verbatim>\<open>govmmQemu.Config\<close> that the controller fills in.\<close>

record Knobs =
  NoUserConfig :: bool
  NoDefaults :: bool
  NoGraphic :: bool
  Daemonize :: bool
  knob_HugePages :: bool
  knob_MemPrealloc :: bool
  FileBackedMem :: bool
  MemShared :: bool
  knob_Mlock :: bool
  knob_Realtime :: bool

record Memory =
  mem_Size :: string
  mem_Slots :: "8 word"
  mem_MaxMem :: string
  mem_Path :: string

record SMP =
  CPUs :: "32 word"
  Cores :: "32 word"
  Threads :: "32 word"
  Sockets :: "32 word"
  MaxCPUs :: "32 word"

datatype MigrationType = MigrationNone | MigrationDefer

record Kernel =
  kernel_Path :: string
  kernel_InitrdPath :: string
  kernel_Params :: string

datatype QMPSocket = QMPSocket string string bool bool

text \<open>
  Devices of the launch configuration. Only the devices that \<^verbatim>\<open>createSandbox\<close> adds
  appear; the root image device is built by code outside these files and is kept opaque.
\<close>

datatype Device =
    BridgeDevice bool string string nat string
  | SerialDevice bool
  | CharDevice string
  | ImageDevice string
  | SCSIControllerDevice bool "string option"
  | RngDevice string string

record Config =
  cfg_Name :: string
  cfg_UUID :: string
  cfg_Path :: string
  cfg_Machine :: Machine
  cfg_SMP :: SMP
  cfg_Memory :: Memory
  cfg_Devices :: "Device list"
  cfg_CPUModel :: string
  cfg_Kernel :: Kernel
  cfg_RTC :: "string \<times> string"
  cfg_QMPSockets :: "QMPSocket list"
  cfg_Knobs :: Knobs
  cfg_Incoming :: MigrationType
  cfg_VGA :: string
  cfg_GlobalParam :: string
  cfg_Bios :: string
  cfg_PidFile :: string
  cfg_LogFile :: string
  cfg_IOThreads :: "string list"

text \<open>Devices handed to the hot-plug operations.\<close>

record BlockDrive =
  drive_File :: string
  drive_ID :: string
  drive_Index :: int
  PCIAddr :: string
  DevNo :: string
  NvdimmID :: string

datatype VFIODeviceType = VFIODeviceNormalType | VFIODeviceMediatedType | VFIODeviceOtherType

record VFIODev =
  vfio_ID :: string
  vfio_Type :: VFIODeviceType
  BDF :: string
  SysfsDev :: string

datatype EndpointType = VethEndpointType | TapEndpointType | OtherEndpointType

text \<open>Open files are named by their descriptor number.\<close>

record TapInterface =
  tap_ID :: string
  tap_Name :: string
  VMFds :: "nat list"
  VhostFds :: "nat list"

text \<open>
  An endpoint: its kind, the tap interface it carries (directly for a tap endpoint, inside
  its network pair for a veth endpoint), its hardware address and the PCI address that
  \<^verbatim>\<open>SetPciAddr\<close> records.
\<close>

record Endpoint =
  ep_Type :: EndpointType
  ep_Tap :: TapInterface
  ep_HardwareAddr :: string
  ep_PciAddr :: string

record HotpluggableCPU =
  hc_Type :: string
  QOMPath :: string
  prop_Socket :: int
  prop_Die :: int
  prop_Core :: int
  prop_Thread :: int

record memoryDevice =
  md_slot :: int
  md_sizeMB :: int
  md_addr :: nat
  md_probe :: bool

record MemoryDeviceData =
  data_Slot :: int
  data_Addr :: nat

text \<open>
  \<^verbatim>\<open>operation\<close> is an integer type with the constants \<^verbatim>\<open>addDevice\<close> = 0 and
  \<^verbatim>\<open>removeDevice\<close> = 1; \<^verbatim>\<open>otherOperation n\<close> is the value \<open>n\<close>, for \<open>n\<close> other than 0 and 1.
\<close>

datatype operation = addDevice | removeDevice | otherOperation int

section \<open>The world outside the controller\<close>

text \<open>The QMP commands the controller sends, with the arguments it chooses.\<close>

datatype qmp_cmd =
    QMPCapabilities
  | Quit
  | DeviceDel string
  | BlockdevAdd string string
  | BlockdevAddWithCache string string bool bool
  | BlockdevDel string
  | NVDIMMDeviceAdd string string int
  | DeviceAdd string string string string
  | PCIDeviceAdd string string string string string
  | SCSIDeviceAdd string string string string int int
  | VFIODeviceAdd string string
  | PCIVFIODeviceAdd string string string string
  | PCIVFIOMediatedDeviceAdd string string string string
  | GetFD string nat
  | NetdevAddByFds string string "string list" "string list"
  | NetdevDel string
  | NetCCWDeviceAdd string string string string int
  | NetPCIDeviceAdd string string string string string int
  | CPUDeviceAdd string string string string string string
  | QueryHotpluggableCPUs
  | QueryMemoryDevices
  | HotplugMemory string string string int bool

text \<open>
  Everything the controller does to the outside is recorded, oldest first, in a trace of
  events: opening and shutting down the QMP session, each QMP command, each write of the
  state to the store, each removal of the VM directories, each local close of a file.
\<close>

datatype event =
    QMPStart
  | QMPShutdown
  | QMP qmp_cmd
  | StoreState QemuState
  | CleanupVM
  | CloseFile nat

datatype stat_result = StatOK | StatNotExist | StatError

text \<open>
  The environment answers. \<^verbatim>\<open>reply\<close> says, from the events so far and the event
  attempted, whether it fails. The other fields are the results of queries and of the
  functions of the repository and of the operating system that lie outside these files.
\<close>

record env =
  reply :: "event list \<Rightarrow> event \<Rightarrow> error option"
  hotpluggableCPUs :: "event list \<Rightarrow> HotpluggableCPU list"
  memoryDevices :: "event list \<Rightarrow> MemoryDeviceData list"
  ReadFile :: "string \<Rightarrow> error + string"
  Stat :: "string \<Rightarrow> stat_result"
  getHostMemorySizeKb :: "error + nat"
  valid :: "HypervisorConfig \<Rightarrow> error + HypervisorConfig"
  newQemuArch :: "HypervisorConfig \<Rightarrow> qemuArchBase"
  InitrdAssetPath :: "HypervisorConfig \<Rightarrow> error + string"
  ImageAssetPath :: "HypervisorConfig \<Rightarrow> error + string"
  KernelAssetPath :: "HypervisorConfig \<Rightarrow> error + string"
  FirmwareAssetPath :: "HypervisorConfig \<Rightarrow> error + string"
  HypervisorAssetPath :: "HypervisorConfig \<Rightarrow> error + string"
  store_Load :: "error + QemuState"
  uuid_Generate :: string
  MkdirAll :: "error option"
  RunningOnVMM :: "error + bool"
  BuildSocketPath :: "string \<Rightarrow> string \<Rightarrow> error + string"
  filepath_Join :: "string list \<Rightarrow> string"
  RunVMStoragePath :: string
  bridgeMaxCapacity :: "BridgeType \<Rightarrow> nat"
  bridgeTypeName :: "BridgeType \<Rightarrow> string"
  AddressFormatCCW :: "Bridge \<Rightarrow> string \<Rightarrow> error + string"
  AddressFormatCCWForVirtServer :: "Bridge \<Rightarrow> string \<Rightarrow> error + string"
  GetSCSIIdLun :: "int \<Rightarrow> error + (int \<times> int)"
  os_Open :: "string \<Rightarrow> error option"
  BLKGETSIZE64 :: "string \<Rightarrow> error + int"
  genericImage :: "string \<Rightarrow> error + string"
  GenerateRandomHex :: string

text \<open>
  The controller object \<^verbatim>\<open>qemu\<close>. \<^verbatim>\<open>has_store\<close> says that \<^verbatim>\<open>q.store\<close> is not nil and
  \<^verbatim>\<open>qmp_open\<close> that \<^verbatim>\<open>q.qmpMonitorCh.qmp\<close> is not nil. \<^verbatim>\<open>trace\<close> is the record of events.
\<close>

record qemu =
  qemu_id :: string
  has_store :: bool
  config :: HypervisorConfig
  qmp_open :: bool
  qmp_path :: string
  qemuConfig :: Config
  state :: QemuState
  arch :: qemuArchBase
  nvdimmCount :: int
  stopped :: bool
  trace :: "event list"

text \<open>An event that may fail, and one that cannot.\<close>

definition emit :: "env \<Rightarrow> event \<Rightarrow> qemu \<Rightarrow> error option \<times> qemu" where
  "emit e ev q = (reply e (trace q) ev, q\<lparr>trace := trace q @ [ev]\<rparr>)"

definition log_event :: "event \<Rightarrow> qemu \<Rightarrow> qemu" where
  "log_event ev q = q\<lparr>trace := trace q @ [ev]\<rparr>"

text \<open>The QMP commands among a list of events.\<close>

fun qmp_cmds :: "event list \<Rightarrow> qmp_cmd list" where
  "qmp_cmds [] = []"
| "qmp_cmds (QMP c # evs) = c # qmp_cmds evs"
| "qmp_cmds (_ # evs) = qmp_cmds evs"

section \<open>Kernel parameters\<close>

text \<open>\<^verbatim>\<open>qemuArchBase.kernelParameters\<close>: the base parameters, then the debug or non-debug ones.\<close>

definition arch_kernelParameters :: "qemuArchBase \<Rightarrow> bool \<Rightarrow> Param list" where
  "arch_kernelParameters a debug =
     (let params = kernelParams a in
      if debug then params @ kernelParamsDebug a else params @ kernelParamsNonDebug a)"

definition defaultKernelParameters :: "Param list" where
  "defaultKernelParameters = [Param ''panic'' ''1'']"

definition vsockKernelOption :: string where
  "vsockKernelOption = ''agent.use_vsock''"

text \<open>
  Modelled from the spec: \<^verbatim>\<open>SerializeParams\<close> (declared with the hypervisor interface,
  which is not among the files verified here) turns each parameter into key, delimiter,
  value, keeping the order and every duplicate.
\<close>

definition SerializeParams :: "Param list \<Rightarrow> string \<Rightarrow> string list" where
  "SerializeParams params delim = map (\<lambda>p. Key p @ delim @ Value p) params"

text \<open>
  \<^verbatim>\<open>qemu.kernelParameters\<close>. The serializer is a parameter, so that the order of the
  segments can be stated for any serializer.
\<close>

definition kernelParameters :: "(Param list \<Rightarrow> string \<Rightarrow> string list) \<Rightarrow> qemu \<Rightarrow> string" where
  "kernelParameters serialize q =
     (let params = arch_kernelParameters (arch q) (Debug (config q));
          params = params @ defaultKernelParameters;
          params = params @ [Param ''nr_cpus'' (fmt_d (unat (DefaultMaxVCPUs (config q))))];
          params = params @ [Param vsockKernelOption (FormatBool (UseVSock (config q)))];
          params = params @ KernelParams (config q);
          paramsStr = serialize params ''=''
      in Join paramsStr '' '')"

section \<open>Bridges\<close>

text \<open>
  \<^verbatim>\<open>addDeviceToBridge\<close>: the first bridge of the requested type that accepts the device
  decides; the slot is printed with \<^verbatim>\<open>%04x\<close> on a CCW bridge and with \<^verbatim>\<open>%02x\<close> on a PCI
  or PCIe bridge. The loop returns the slot string, the bridge and the updated list.
\<close>

fun addDeviceToBridge_loop ::
  "Bridge list \<Rightarrow> string \<Rightarrow> BridgeType \<Rightarrow> (string \<times> Bridge \<times> Bridge list) option" where
  "addDeviceToBridge_loop [] ID t = None"
| "addDeviceToBridge_loop (b # bs) ID t =
     (if t \<noteq> bridge_Type b
      then map_option (\<lambda>(s, b', bs'). (s, b', b # bs')) (addDeviceToBridge_loop bs ID t)
      else (case AddDevice b ID of
              Inl err \<Rightarrow> map_option (\<lambda>(s, b', bs'). (s, b', b # bs')) (addDeviceToBridge_loop bs ID t)
            | Inr (slot_addr, b') \<Rightarrow>
                (case t of
                   CCW \<Rightarrow> Some (fmt_0x 4 slot_addr, b', b' # bs)
                 | PCI \<Rightarrow> Some (fmt_0x 2 slot_addr, b', b' # bs)
                 | PCIE \<Rightarrow> Some (fmt_0x 2 slot_addr, b', b' # bs))))"

definition addDeviceToBridge ::
  "qemuArchBase \<Rightarrow> string \<Rightarrow> BridgeType \<Rightarrow> (error + string \<times> Bridge) \<times> qemuArchBase" where
  "addDeviceToBridge a ID t =
     (if length (Bridges a) = 0
      then (Inl (Err ''failed to get available address from bridges''), a)
      else (case addDeviceToBridge_loop (Bridges a) ID t of
              None \<Rightarrow> (Inl (Err ''no more bridge slots available''), a)
            | Some (s, b, bs) \<Rightarrow> (Inr (s, b), a\<lparr>Bridges := bs\<rparr>)))"

text \<open>
  \<^verbatim>\<open>removeDeviceFromBridge\<close>: the first bridge that holds the device releases it; otherwise
  the error of the last bridge is returned (no error when there is no bridge).
\<close>

fun removeDeviceFromBridge_loop ::
  "Bridge list \<Rightarrow> string \<Rightarrow> error option \<Rightarrow> error option \<times> Bridge list" where
  "removeDeviceFromBridge_loop [] ID err = (err, [])"
| "removeDeviceFromBridge_loop (b # bs) ID err =
     (case RemoveDevice b ID of
        Inr b' \<Rightarrow> (None, b' # bs)
      | Inl e \<Rightarrow> (let (r, bs') = removeDeviceFromBridge_loop bs ID (Some e) in (r, b # bs')))"

definition removeDeviceFromBridge :: "qemuArchBase \<Rightarrow> string \<Rightarrow> error option \<times> qemuArchBase" where
  "removeDeviceFromBridge a ID =
     (let (r, bs) = removeDeviceFromBridge_loop (Bridges a) ID None in (r, a\<lparr>Bridges := bs\<rparr>))"

section \<open>Process ids\<close>

definition getPids :: "env \<Rightarrow> qemu \<Rightarrow> int list" where
  "getPids e q =
     (case ReadFile e (cfg_PidFile (qemuConfig q)) of
        Inl err \<Rightarrow> [0]
      | Inr data \<Rightarrow>
          (case Atoi (Trim data [CHR 0x0A, CHR 0x09, CHR '' '']) of
             None \<Rightarrow> [0]
           | Some pid \<Rightarrow>
               (let pids = [] @ [pid];
                    pids = (if VirtiofsdPid (state q) \<noteq> 0
                            then pids @ [VirtiofsdPid (state q)] else pids)
                in pids)))"

section \<open>Session, store and shutdown\<close>

text \<open>
  \<^verbatim>\<open>storeState\<close>: with a store attached, the bridges of the architecture object are
  assigned to the state and the state is written. The event carries the state that the
  store receives. In Go the assignment makes the state share the slice of the architecture
  object, so that a later write to a bridge through the architecture object is read
  through \<^verbatim>\<open>q.state.Bridges\<close> as well; \<^verbatim>\<open>state_Bridges\<close> holds the bridges as they are at
  the assignment, and the current bridges of a controller are those of its architecture
  object, \<^verbatim>\<open>Bridges (arch q)\<close>.
\<close>

definition storeState :: "env \<Rightarrow> qemu \<Rightarrow> error option \<times> qemu" where
  "storeState e q =
     (if has_store q
      then (let q1 = q\<lparr>state := (state q)\<lparr>state_Bridges := Bridges (arch q)\<rparr>\<rparr>
            in emit e (StoreState (state q1)) q1)
      else (None, q))"

text \<open>
  \<^verbatim>\<open>qmpSetup\<close>: nothing to do with an open session; otherwise start one and negotiate the
  capabilities, shutting the session down when the negotiation fails.
\<close>

definition qmpSetup :: "env \<Rightarrow> qemu \<Rightarrow> error option \<times> qemu" where
  "qmpSetup e q =
     (if qmp_open q then (None, q)
      else (case emit e QMPStart q of
              (Some err, q1) \<Rightarrow> (Some err, q1)
            | (None, q1) \<Rightarrow>
                (case emit e (QMP QMPCapabilities) q1 of
                   (Some err, q2) \<Rightarrow> (Some err, log_event QMPShutdown q2)
                 | (None, q2) \<Rightarrow> (None, q2\<lparr>qmp_open := True\<rparr>))))"

text \<open>\<^verbatim>\<open>cleanupVM\<close> removes the directories of the VM and never fails.\<close>

definition cleanupVM :: "qemu \<Rightarrow> qemu" where
  "cleanupVM q = log_event CleanupVM q"

text \<open>
  \<^verbatim>\<open>stopSandbox\<close>. Once past the test of \<^verbatim>\<open>stopped\<close>, the deferred function runs on every
  return: it cleans up and sets \<^verbatim>\<open>stopped\<close>. Reading the log file back in debug mode only
  produces log lines and is left out.
\<close>

definition stopSandbox :: "env \<Rightarrow> qemu \<Rightarrow> error option \<times> qemu" where
  "stopSandbox e q =
     (if stopped q then (None, q)
      else (let (err, q1) =
                  (case qmpSetup e q of
                     (Some err, q1) \<Rightarrow> (Some err, q1)
                   | (None, q1) \<Rightarrow>
                       (case emit e (QMP Quit) q1 of
                          (Some err, q2) \<Rightarrow> (Some err, q2)
                        | (None, q2) \<Rightarrow> (None, q2)));
                q3 = cleanupVM q1
            in (err, q3\<lparr>stopped := True\<rparr>)))"

text \<open>\<^verbatim>\<open>qemuArchBase.machine\<close> and \<^verbatim>\<open>qemu.getQemuMachine\<close>.\<close>

definition machine :: "qemuArchBase \<Rightarrow> error + Machine" where
  "machine a =
     (case find (\<lambda>m. machine_Type m = machineType a) (supportedQemuMachines a) of
        Some m \<Rightarrow> Inr m
      | None \<Rightarrow> Inl (Err (''unrecognised machine type: '' @ machineType a)))"

definition getQemuMachine :: "qemu \<Rightarrow> error + Machine" where
  "getQemuMachine q =
     (case machine (arch q) of
        Inl err \<Rightarrow> Inl err
      | Inr m \<Rightarrow>
          (let accelerators = MachineAccelerators (config q)
           in if accelerators \<noteq> ''''
              then (let accelerators = (if \<not> HasPrefix accelerators '','' then '','' @ accelerators
                                        else accelerators)
                    in Inr (m\<lparr>machine_Options := machine_Options m @ accelerators\<rparr>))
              else Inr m))"


section \<open>Hot-plugging CPUs\<close>

definition romFile :: string where
  "romFile = ''''"

text \<open>
  The loop of \<^verbatim>\<open>hotplugAddCPUs\<close> over the hot-pluggable CPUs that QEMU reported. It
  either returns from inside (\<open>Inr\<close>: the amount and the result of \<^verbatim>\<open>storeState\<close>) once
  the counter reaches the amount, or runs out of candidates (\<open>Inl\<close>: the counter).
\<close>

fun hotplugAddCPUs_loop ::
  "env \<Rightarrow> Machine \<Rightarrow> 32 word \<Rightarrow> HotpluggableCPU list \<Rightarrow> 32 word \<Rightarrow> qemu
     \<Rightarrow> (32 word + 32 word \<times> error option) \<times> qemu" where
  "hotplugAddCPUs_loop e m amount [] hotpluggedVCPUs q = (Inl hotpluggedVCPUs, q)"
| "hotplugAddCPUs_loop e m amount (hc # hcs) hotpluggedVCPUs q =
     (if QOMPath hc \<noteq> '''' then hotplugAddCPUs_loop e m amount hcs hotpluggedVCPUs q
      else (let driver = hc_Type hc;
                cpuID = ''cpu-'' @ fmt_d (length (HotpluggedVCPUs (state q)));
                socketID = fmt_d_int (prop_Socket hc);
                dieID = fmt_d_int (prop_Die hc);
                coreID = fmt_d_int (prop_Core hc);
                threadID = fmt_d_int (prop_Thread hc);
                special = (machine_Type m = ''pseries'' \<or> machine_Type m = ''s390-ccw-virtio'');
                socketID = (if special then '''' else socketID);
                threadID = (if special then '''' else threadID);
                dieID = (if special then '''' else dieID)
            in (case emit e (QMP (CPUDeviceAdd driver cpuID socketID dieID coreID threadID)) q of
                  (Some err, q1) \<Rightarrow> hotplugAddCPUs_loop e m amount hcs hotpluggedVCPUs q1
                | (None, q1) \<Rightarrow>
                    (let q2 = q1\<lparr>state := (state q1)\<lparr>HotpluggedVCPUs :=
                                   HotpluggedVCPUs (state q1) @ [CPUDevice cpuID]\<rparr>\<rparr>;
                         hotpluggedVCPUs = hotpluggedVCPUs + 1
                     in if hotpluggedVCPUs = amount
                        then (let (r, q3) = storeState e q2 in (Inr (amount, r), q3))
                        else hotplugAddCPUs_loop e m amount hcs hotpluggedVCPUs q2))))"

text \<open>
  \<^verbatim>\<open>hotplugAddCPUs\<close>. The counts are \<^verbatim>\<open>uint32\<close>: the sum and the difference wrap around.
  A request beyond the maximum is cut down to what is left; nothing left is not an error.
\<close>

definition hotplugAddCPUs :: "env \<Rightarrow> 32 word \<Rightarrow> qemu \<Rightarrow> (32 word \<times> error option) \<times> qemu" where
  "hotplugAddCPUs e amount q =
     (let currentVCPUs = CPUs (cfg_SMP (qemuConfig q)) + of_nat (length (HotpluggedVCPUs (state q)));
          amount = (if currentVCPUs + amount > DefaultMaxVCPUs (config q)
                    then DefaultMaxVCPUs (config q) - currentVCPUs else amount)
      in if amount = 0 then ((0, None), q)
         else (case emit e (QMP QueryHotpluggableCPUs) q of
                 (Some err, q1) \<Rightarrow>
                   ((0, Some (Err (''failed to query hotpluggable CPUs: '' @ msg err))), q1)
               | (None, q1) \<Rightarrow>
                   (case machine (arch q1) of
                      Inl err \<Rightarrow> ((0, Some (Err (''failed to query machine type: '' @ msg err))), q1)
                    | Inr m \<Rightarrow>
                        (case hotplugAddCPUs_loop e m amount (hotpluggableCPUs e (trace q)) 0 q1 of
                           (Inr ret, q2) \<Rightarrow> (ret, q2)
                         | (Inl hotpluggedVCPUs, q2) \<Rightarrow>
                             (let (r, q3) = storeState e q2
                              in ((hotpluggedVCPUs,
                                   Some (Err (''failed to hot add vCPUs: only ''
                                      @ fmt_d (unat hotpluggedVCPUs) @ '' vCPUs of ''
                                      @ fmt_d (unat amount) @ '' were added''))), q3))))))"

text \<open>
  The loop of \<^verbatim>\<open>hotplugRemoveCPUs\<close>: \<open>i\<close> counts the CPUs removed so far. Indexing the
  last element of an empty list panics in Go; the model reports it as an error.
\<close>

function hotplugRemoveCPUs_loop ::
  "env \<Rightarrow> 32 word \<Rightarrow> 32 word \<Rightarrow> qemu \<Rightarrow> (32 word \<times> error option) \<times> qemu" where
  "hotplugRemoveCPUs_loop e amount i q =
     (if i < amount
      then (if HotpluggedVCPUs (state q) = []
            then ((i, Some (Err ''panic: runtime error: index out of range'')), q)
            else (let cpu = last (HotpluggedVCPUs (state q))
                  in (case emit e (QMP (DeviceDel (cpu_ID cpu))) q of
                        (Some err, q1) \<Rightarrow>
                          (let (r, q2) = storeState e q1
                           in ((i, Some (Err (''failed to hotunplug CPUs, only '' @ fmt_d (unat i)
                                  @ '' CPUs were hotunplugged: '' @ msg err))), q2))
                      | (None, q1) \<Rightarrow>
                          hotplugRemoveCPUs_loop e amount (i + 1)
                            (q1\<lparr>state := (state q1)\<lparr>HotpluggedVCPUs :=
                                   butlast (HotpluggedVCPUs (state q1))\<rparr>\<rparr>))))
      else (let (r, q1) = storeState e q in ((amount, r), q1)))"
  by pat_completeness auto
termination
proof (relation "measure (\<lambda>(e, amount, i, q). unat amount - unat i)")
  show "wf (measure (\<lambda>(e, amount, i, q). unat amount - unat i))" by simp
next
  fix e :: env and amount i :: "32 word" and q x xa y :: qemu and z
  assume lt: "i < amount"
  then have "i \<noteq> - 1" by (metis word_order.extremum_strict)
  then have "1 + i \<noteq> 0" by (metis add.commute add_eq_0_iff)
  then have "unat (i + 1) = unat i + 1" by (simp add: unatSuc add.commute)
  moreover from lt have "unat i < unat amount" by (simp add: word_less_nat_alt)
  ultimately show "((e, amount, i + 1,
           y\<lparr>state := (state y)\<lparr>HotpluggedVCPUs := butlast (HotpluggedVCPUs (state y))\<rparr>\<rparr>),
          e, amount, i, q) \<in> measure (\<lambda>(e, amount, i, q). unat amount - unat i)"
    by simp
qed

declare hotplugRemoveCPUs_loop.simps [simp del]

definition hotplugRemoveCPUs :: "env \<Rightarrow> 32 word \<Rightarrow> qemu \<Rightarrow> (32 word \<times> error option) \<times> qemu" where
  "hotplugRemoveCPUs e amount q =
     (let hotpluggedVCPUs = (of_nat (length (HotpluggedVCPUs (state q))) :: 32 word)
      in if amount > hotpluggedVCPUs
         then ((0, Some (Err (''Unable to remove '' @ fmt_d (unat amount)
                 @ '' CPUs, currently there are only '' @ fmt_d (unat hotpluggedVCPUs)
                 @ '' hotplugged CPUs''))), q)
         else hotplugRemoveCPUs_loop e amount 0 q)"

definition hotplugCPUs ::
  "env \<Rightarrow> 32 word \<Rightarrow> operation \<Rightarrow> qemu \<Rightarrow> (32 word \<times> error option) \<times> qemu" where
  "hotplugCPUs e vcpus op q =
     (if vcpus = 0 then ((0, None), q)
      else (case qmpSetup e q of
              (Some err, q1) \<Rightarrow> ((0, Some err), q1)
            | (None, q1) \<Rightarrow>
                if op = addDevice then hotplugAddCPUs e vcpus q1
                else hotplugRemoveCPUs e vcpus q1))"

section \<open>Hot-plugging memory\<close>

text \<open>
  \<^verbatim>\<open>supportGuestMemoryHotplug\<close>, called through the interface: the answer of the
  architecture object of the controller.
\<close>

definition supportGuestMemoryHotplug :: "qemuArchBase \<Rightarrow> bool" where
  "supportGuestMemoryHotplug a = guestMemoryHotplug a"

definition hostMemMB :: "env \<Rightarrow> error + nat" where
  "hostMemMB e =
     (case getHostMemorySizeKb e of
        Inl err \<Rightarrow> Inl (Err (''Unable to read memory info: '' @ msg err))
      | Inr hostMemKb \<Rightarrow>
          if hostMemKb = 0 then Inl (Err ''Error host memory size 0'')
          else Inr (hostMemKb div 1024))"

text \<open>
  \<^verbatim>\<open>hotplugAddMemory\<close>. The memory device is passed by pointer; the model returns it
  with the slot and the address that the function writes.
\<close>

definition hotplugAddMemory ::
  "env \<Rightarrow> memoryDevice \<Rightarrow> qemu \<Rightarrow> (int \<times> error option) \<times> memoryDevice \<times> qemu" where
  "hotplugAddMemory e memDev q =
     (case emit e (QMP QueryMemoryDevices) q of
        (Some err, q1) \<Rightarrow>
          ((0, Some (Err (''failed to query memory devices: '' @ msg err))), memDev, q1)
      | (None, q1) \<Rightarrow>
          (let devs = memoryDevices e (trace q);
               memDev = (if length devs \<noteq> 0
                         then memDev\<lparr>md_slot := go_int (foldl (\<lambda>maxSlot d. if maxSlot < data_Slot d
                                                           then data_Slot d else maxSlot) (- 1) devs + 1)\<rparr>
                         else memDev);
               (target, memoryBack, share) =
                  (if knob_HugePages (cfg_Knobs (qemuConfig q1))
                   then (''/dev/hugepages'', ''memory-backend-file'', True)
                   else if SharedFS (config q1) = VirtioFS \<or> FileBackedMemRootDir (config q1) \<noteq> ''''
                   then (mem_Path (cfg_Memory (qemuConfig q1)), ''memory-backend-file'', False)
                   else ('''', ''memory-backend-ram'', False));
               share = (if MemShared (cfg_Knobs (qemuConfig q1)) then True else share)
           in (case emit e (QMP (HotplugMemory memoryBack (''mem'' @ fmt_d_int (md_slot memDev))
                                   target (md_sizeMB memDev) share)) q1 of
                 (Some err, q2) \<Rightarrow> ((0, Some err), memDev, q2)
               | (None, q2) \<Rightarrow>
                   (let probed =
                          (if md_probe memDev
                           then (case emit e (QMP QueryMemoryDevices) q2 of
                                   (Some err, q3) \<Rightarrow>
                                     (Some (Err (''failed to query memory devices: '' @ msg err)),
                                      memDev, q3)
                                 | (None, q3) \<Rightarrow>
                                     (let devs2 = memoryDevices e (trace q2)
                                      in if length devs2 \<noteq> 0
                                         then (None, memDev\<lparr>md_addr := data_Addr (last devs2)\<rparr>, q3)
                                         else (Some (Err ''failed to probe address of recently hot-add memory device, no device exists''),
                                               memDev, q3)))
                           else (None, memDev, q2))
                    in (case probed of
                          (Some err, memDev, q3) \<Rightarrow> ((0, Some err), memDev, q3)
                        | (None, memDev, q3) \<Rightarrow>
                            (let q4 = q3\<lparr>state := (state q3)\<lparr>HotpluggedMemory :=
                                           go_int (HotpluggedMemory (state q3) + md_sizeMB memDev)\<rparr>\<rparr>;
                                 (r, q5) = storeState e q4
                             in ((md_sizeMB memDev, r), memDev, q5)))))))"

text \<open>
  \<^verbatim>\<open>hotplugMemory\<close>. The sums are sums of Go \<^verbatim>\<open>int\<close>s, and the host memory, a
  \<^verbatim>\<open>uint64\<close>, is converted to \<^verbatim>\<open>int\<close> for the comparison.
\<close>

definition hotplugMemory ::
  "env \<Rightarrow> memoryDevice \<Rightarrow> operation \<Rightarrow> qemu \<Rightarrow> (int \<times> error option) \<times> memoryDevice \<times> qemu" where
  "hotplugMemory e memDev op q =
     (if \<not> supportGuestMemoryHotplug (arch q)
      then ((0, Some (Err ''guest memory hotplug not supported'')), memDev, q)
      else if md_sizeMB memDev < 0
      then ((0, Some (Err (''cannot hotplug negative size ('' @ fmt_d_int (md_sizeMB memDev)
                @ '') memory''))), memDev, q)
      else (case qmpSetup e q of
              (Some err, q1) \<Rightarrow> ((0, Some err), memDev, q1)
            | (None, q1) \<Rightarrow>
                (let currentMemory = go_int (int (unat (MemorySize (config q1)))
                                               + HotpluggedMemory (state q1))
                 in if md_sizeMB memDev = 0 then ((0, None), memDev, q1)
                    else (case op of
                            removeDevice \<Rightarrow> ((0, None), memDev, q1)
                          | addDevice \<Rightarrow>
                              (case hostMemMB e of
                                 Inl err \<Rightarrow> ((0, Some err), memDev, q1)
                               | Inr maxMem \<Rightarrow>
                                   if go_int (currentMemory + md_sizeMB memDev) > go_int (int maxMem)
                                   then ((0, Some (Err (''Unable to hotplug '' @ fmt_d_int (md_sizeMB memDev)
                                           @ '' MiB memory, the SB has '' @ fmt_d_int currentMemory
                                           @ '' MiB and the maximum amount is '' @ fmt_d maxMem
                                           @ '' MiB''))), memDev, q1)
                                   else hotplugAddMemory e memDev q1)
                          | otherOperation n \<Rightarrow>
                              ((0, Some (Err (''invalid operation '' @ fmt_d_int n))), memDev, q1)))))"

section \<open>Hot-plugging block, VFIO and network devices\<close>

text \<open>
  The deferred functions of the add flows. Each tests one variable \<^verbatim>\<open>err\<close> when the
  function returns. The one that deletes the block device or the net device tests the
  named result of the function. The one that releases the bridge slot is declared after
  \<^verbatim>\<open>addr, bridge, err := q.arch.addDeviceToBridge(...)\<close>, which declares a new variable
  \<^verbatim>\<open>err\<close> in the enclosing block: it tests that variable, whose value at the return is
  passed here as \<open>declared_err\<close>.
\<close>

definition deferred_blockdev_del ::
  "env \<Rightarrow> string \<Rightarrow> error option \<times> BlockDrive \<times> qemu \<Rightarrow> error option \<times> BlockDrive \<times> qemu" where
  "deferred_blockdev_del e driveID r =
     (case r of (err, drive, q) \<Rightarrow>
        if err \<noteq> None then (err, drive, snd (emit e (QMP (BlockdevDel driveID)) q))
        else (err, drive, q))"

definition deferred_netdev_del ::
  "env \<Rightarrow> string \<Rightarrow> error option \<times> Endpoint \<times> qemu \<Rightarrow> error option \<times> Endpoint \<times> qemu" where
  "deferred_netdev_del e name r =
     (case r of (err, endpoint, q) \<Rightarrow>
        if err \<noteq> None then (err, endpoint, snd (emit e (QMP (NetdevDel name)) q))
        else (err, endpoint, q))"

definition deferred_release :: "error option \<Rightarrow> string \<Rightarrow> qemu \<Rightarrow> qemu" where
  "deferred_release declared_err ID q =
     (if declared_err \<noteq> None then q\<lparr>arch := snd (removeDeviceFromBridge (arch q) ID)\<rparr> else q)"

text \<open>
  \<^verbatim>\<open>hotplugAddBlockDevice\<close>. The drive is passed by pointer; the model returns it with
  the fields the function writes. In the CCW case no release of the slot is deferred. In
  the PCI case the device add assigns the declared \<^verbatim>\<open>err\<close> before returning it.
\<close>

definition hotplugAddBlockDevice ::
  "env \<Rightarrow> BlockDrive \<Rightarrow> operation \<Rightarrow> string \<Rightarrow> qemu \<Rightarrow> error option \<times> BlockDrive \<times> qemu" where
  "hotplugAddBlockDevice e drive op devID q =
     (if BlockDeviceDriver (config q) = Nvdimm
      then (case os_Open e (drive_File drive) of
              Some err \<Rightarrow> (Some err, drive, q)
            | None \<Rightarrow>
                (case BLKGETSIZE64 e (drive_File drive) of
                   Inl err \<Rightarrow> (Some err, drive, q)
                 | Inr blocksize \<Rightarrow>
                     (case emit e (QMP (NVDIMMDeviceAdd (drive_ID drive) (drive_File drive) blocksize)) q of
                        (Some err, q1) \<Rightarrow> (Some err, drive, q1)
                      | (None, q1) \<Rightarrow>
                          (None, drive\<lparr>NvdimmID := fmt_d_int (nvdimmCount q1)\<rparr>,
                           q1\<lparr>nvdimmCount := go_int (nvdimmCount q1 + 1)\<rparr>))))
      else (case (if BlockDeviceCacheSet (config q)
                  then emit e (QMP (BlockdevAddWithCache (drive_File drive) (drive_ID drive)
                          (BlockDeviceCacheDirect (config q)) (BlockDeviceCacheNoflush (config q)))) q
                  else emit e (QMP (BlockdevAdd (drive_File drive) (drive_ID drive))) q) of
              (Some err, q1) \<Rightarrow> (Some err, drive, q1)
            | (None, q1) \<Rightarrow>
                deferred_blockdev_del e (drive_ID drive)
                  (case BlockDeviceDriver (config q1) of
                     VirtioBlockCCW \<Rightarrow>
                       (case addDeviceToBridge (arch q1) (drive_ID drive) CCW of
                          (Inl err, a) \<Rightarrow> (Some err, drive, q1\<lparr>arch := a\<rparr>)
                        | (Inr (slot, bridge), a) \<Rightarrow>
                            (let q2 = q1\<lparr>arch := a\<rparr>
                             in (case AddressFormatCCW e bridge slot of
                                   Inl err \<Rightarrow> (Some err, drive, q2)
                                 | Inr devNoHotplug \<Rightarrow>
                                     (case AddressFormatCCWForVirtServer e bridge slot of
                                        Inl err \<Rightarrow> (Some err, drive\<lparr>DevNo := ''''\<rparr>, q2)
                                      | Inr devNo \<Rightarrow>
                                          (let drive1 = drive\<lparr>DevNo := devNo\<rparr>
                                           in (case emit e (QMP (DeviceAdd (drive_ID drive) devID
                                                       ''virtio-blk-ccw'' devNoHotplug)) q2 of
                                                 (Some err, q3) \<Rightarrow> (Some err, drive1, q3)
                                               | (None, q3) \<Rightarrow> (None, drive1, q3)))))))
                   | VirtioBlock \<Rightarrow>
                       (case addDeviceToBridge (arch q1) (drive_ID drive) PCI of
                          (Inl err, a) \<Rightarrow> (Some err, drive, q1\<lparr>arch := a\<rparr>)
                        | (Inr (slot, bridge), a) \<Rightarrow>
                            (let q2 = q1\<lparr>arch := a\<rparr>;
                                 drive1 = drive\<lparr>PCIAddr := fmt_0x_int 2 (bridge_Addr bridge) @ ''/'' @ slot\<rparr>
                             in (case emit e (QMP (PCIDeviceAdd (drive_ID drive) devID
                                         ''virtio-blk-pci'' slot (bridge_ID bridge))) q2 of
                                   (Some err, q3) \<Rightarrow>
                                     (let declared_err = Some err
                                      in (Some err, drive1, deferred_release declared_err (drive_ID drive) q3))
                                 | (None, q3) \<Rightarrow>
                                     (let declared_err = None
                                      in (None, drive1, deferred_release declared_err (drive_ID drive) q3)))))
                   | VirtioSCSI \<Rightarrow>
                       (case GetSCSIIdLun e (drive_Index drive) of
                          Inl err \<Rightarrow> (Some err, drive, q1)
                        | Inr (scsiID, lun) \<Rightarrow>
                            (case emit e (QMP (SCSIDeviceAdd (drive_ID drive) devID ''scsi-hd''
                                        ''scsi0.0'' scsiID lun)) q1 of
                               (Some err, q2) \<Rightarrow> (Some err, drive, q2)
                             | (None, q2) \<Rightarrow> (None, drive, q2)))
                   | Nvdimm \<Rightarrow> (Some (Err ''Block device nvdimm not recognized''), drive, q1)
                   | OtherBlockDriver s \<Rightarrow>
                       (Some (Err (''Block device '' @ s @ '' not recognized'')), drive, q1))))"

text \<open>\<^verbatim>\<open>hotplugBlockDevice\<close>.\<close>

definition hotplugBlockDevice ::
  "env \<Rightarrow> BlockDrive \<Rightarrow> operation \<Rightarrow> qemu \<Rightarrow> error option \<times> BlockDrive \<times> qemu" where
  "hotplugBlockDevice e drive op q =
     (case qmpSetup e q of
        (Some err, q1) \<Rightarrow> (Some err, drive, q1)
      | (None, q1) \<Rightarrow>
          (let devID = ''virtio-'' @ drive_ID drive
           in if op = addDevice then hotplugAddBlockDevice e drive op devID q1
              else (case (if BlockDeviceDriver (config q1) = VirtioBlock
                          then removeDeviceFromBridge (arch q1) (drive_ID drive)
                          else (None, arch q1)) of
                      (Some err, a) \<Rightarrow> (Some err, drive, q1\<lparr>arch := a\<rparr>)
                    | (None, a) \<Rightarrow>
                        (case emit e (QMP (DeviceDel devID)) (q1\<lparr>arch := a\<rparr>) of
                           (Some err, q2) \<Rightarrow> (Some err, drive, q2)
                         | (None, q2) \<Rightarrow>
                             (case emit e (QMP (BlockdevDel (drive_ID drive))) q2 of
                                (Some err, q3) \<Rightarrow> (Some err, drive, q3)
                              | (None, q3) \<Rightarrow> (None, drive, q3))))))"

text \<open>
  \<^verbatim>\<open>hotplugVFIODevice\<close>. On a bridge, the result of the device add is returned
  directly: it reaches the named result, and the declared \<^verbatim>\<open>err\<close>, which the deferred
  release tests, keeps the nil it got from \<^verbatim>\<open>addDeviceToBridge\<close>.
\<close>

definition hotplugVFIODevice :: "env \<Rightarrow> VFIODev \<Rightarrow> operation \<Rightarrow> qemu \<Rightarrow> error option \<times> qemu" where
  "hotplugVFIODevice e device op q =
     (case qmpSetup e q of
        (Some err, q1) \<Rightarrow> (Some err, q1)
      | (None, q1) \<Rightarrow>
          (let devID = vfio_ID device
           in if op = addDevice
              then (if HotplugVFIOOnRootBus (state q1)
                    then (case vfio_Type device of
                            VFIODeviceNormalType \<Rightarrow>
                              emit e (QMP (VFIODeviceAdd devID (BDF device))) q1
                          | VFIODeviceMediatedType \<Rightarrow>
                              emit e (QMP (PCIVFIOMediatedDeviceAdd devID (SysfsDev device) '''' '''')) q1
                          | VFIODeviceOtherType \<Rightarrow>
                              (Some (Err ''Incorrect VFIO device type found''), q1))
                    else (case addDeviceToBridge (arch q1) devID PCI of
                            (Inl err, a) \<Rightarrow> (Some err, q1\<lparr>arch := a\<rparr>)
                          | (Inr (slot, bridge), a) \<Rightarrow>
                              (let q2 = q1\<lparr>arch := a\<rparr>;
                                   declared_err = None;
                                   (ret, q3) =
                                     (case vfio_Type device of
                                        VFIODeviceNormalType \<Rightarrow>
                                          emit e (QMP (PCIVFIODeviceAdd devID (BDF device) slot
                                                   (bridge_ID bridge))) q2
                                      | VFIODeviceMediatedType \<Rightarrow>
                                          emit e (QMP (PCIVFIOMediatedDeviceAdd devID (SysfsDev device)
                                                   slot (bridge_ID bridge))) q2
                                      | VFIODeviceOtherType \<Rightarrow>
                                          (Some (Err ''Incorrect VFIO device type found''), q2))
                               in (ret, deferred_release declared_err devID q3))))
              else (case (if \<not> HotplugVFIOOnRootBus (state q1)
                          then removeDeviceFromBridge (arch q1) devID
                          else (None, arch q1)) of
                      (Some err, a) \<Rightarrow> (Some err, q1\<lparr>arch := a\<rparr>)
                    | (None, a) \<Rightarrow>
                        (case emit e (QMP (DeviceDel devID)) (q1\<lparr>arch := a\<rparr>) of
                           (Some err, q2) \<Rightarrow> (Some err, q2)
                         | (None, q2) \<Rightarrow> (None, q2)))))"

text \<open>
  \<^verbatim>\<open>hotAddNetDevice\<close>: every file is handed to QEMU under the name \<open>fd<i>\<close> or
  \<open>vhostfd<i>\<close>, a vhost file is closed locally once handed over, and the net device is
  added with those names.
\<close>

fun getfd_loop ::
  "env \<Rightarrow> string \<Rightarrow> bool \<Rightarrow> nat \<Rightarrow> nat list \<Rightarrow> string list \<Rightarrow> qemu \<Rightarrow> (error + string list) \<times> qemu" where
  "getfd_loop e pre closing i [] names q = (Inr names, q)"
| "getfd_loop e pre closing i (fd # fds) names q =
     (let fdName = pre @ fmt_d i
      in (case emit e (QMP (GetFD fdName fd)) q of
            (Some err, q1) \<Rightarrow> (Inl err, q1)
          | (None, q1) \<Rightarrow>
              getfd_loop e pre closing (i + 1) fds (names @ [fdName])
                (if closing then log_event (CloseFile fd) q1 else q1)))"

definition hotAddNetDevice ::
  "env \<Rightarrow> string \<Rightarrow> string \<Rightarrow> nat list \<Rightarrow> nat list \<Rightarrow> qemu \<Rightarrow> error option \<times> qemu" where
  "hotAddNetDevice e name hardAddr vmFds vhostFds q =
     (case getfd_loop e ''fd'' False 0 vmFds [] q of
        (Inl err, q1) \<Rightarrow> (Some err, q1)
      | (Inr VMFdNames, q1) \<Rightarrow>
          (case getfd_loop e ''vhostfd'' True 0 vhostFds [] q1 of
             (Inl err, q2) \<Rightarrow> (Some err, q2)
           | (Inr VhostFdNames, q2) \<Rightarrow>
               emit e (QMP (NetdevAddByFds ''tap'' name VMFdNames VhostFdNames)) q2))"

definition QemuCCWVirtio :: string where
  "QemuCCWVirtio = ''s390-ccw-virtio''"

text \<open>
  \<^verbatim>\<open>hotplugNetDevice\<close>. The endpoint is an interface value whose PCI address the function
  sets; the model returns it. A failure of \<^verbatim>\<open>getQemuMachine\<close> is assigned to the declared
  \<^verbatim>\<open>err\<close>; the result of the device add is returned directly and reaches the named
  result only.
\<close>

definition hotplugNetDevice ::
  "env \<Rightarrow> Endpoint \<Rightarrow> operation \<Rightarrow> qemu \<Rightarrow> error option \<times> Endpoint \<times> qemu" where
  "hotplugNetDevice e endpoint op q =
     (case qmpSetup e q of
        (Some err, q1) \<Rightarrow> (Some err, endpoint, q1)
      | (None, q1) \<Rightarrow>
          (if ep_Type endpoint = OtherEndpointType
           then (Some (Err ''this endpoint is not supported''), endpoint, q1)
           else (let tap = ep_Tap endpoint;
                     devID = ''virtio-'' @ tap_ID tap
                 in if op = addDevice
                    then (case hotAddNetDevice e (tap_Name tap) (ep_HardwareAddr endpoint)
                                 (VMFds tap) (VhostFds tap) q1 of
                            (Some err, q2) \<Rightarrow> (Some err, endpoint, q2)
                          | (None, q2) \<Rightarrow>
                              deferred_netdev_del e (tap_Name tap)
                                (case addDeviceToBridge (arch q2) (tap_ID tap) PCI of
                                   (Inl err, a) \<Rightarrow> (Some err, endpoint, q2\<lparr>arch := a\<rparr>)
                                 | (Inr (slot, bridge), a) \<Rightarrow>
                                     (let q3 = q2\<lparr>arch := a\<rparr>;
                                          pciAddr = fmt_0x_int 2 (bridge_Addr bridge) @ ''/'' @ slot;
                                          endpoint1 = endpoint\<lparr>ep_PciAddr := pciAddr\<rparr>
                                      in (case getQemuMachine q3 of
                                            Inl err \<Rightarrow>
                                              (let declared_err = Some err
                                               in (Some err, endpoint1,
                                                   deferred_release declared_err (tap_ID tap) q3))
                                          | Inr m \<Rightarrow>
                                              (let declared_err = None;
                                                   (ret, q4) =
                                                     (if machine_Type m = QemuCCWVirtio
                                                      then emit e (QMP (NetCCWDeviceAdd (tap_Name tap) devID
                                                               (ep_HardwareAddr endpoint1)
                                                               (''fe.'' @ fmt_x_int (bridge_Addr bridge) @ ''.''
                                                                  @ fmt_x_string slot)
                                                               (int (unat (NumVCPUs (config q3)))))) q3
                                                      else emit e (QMP (NetPCIDeviceAdd (tap_Name tap) devID
                                                               (ep_HardwareAddr endpoint1) slot (bridge_ID bridge)
                                                               (int (unat (NumVCPUs (config q3)))))) q3)
                                               in (ret, endpoint1,
                                                   deferred_release declared_err (tap_ID tap) q4))))))
                    else (case removeDeviceFromBridge (arch q1) (tap_ID tap) of
                            (Some err, a) \<Rightarrow> (Some err, endpoint, q1\<lparr>arch := a\<rparr>)
                          | (None, a) \<Rightarrow>
                              (case emit e (QMP (DeviceDel devID)) (q1\<lparr>arch := a\<rparr>) of
                                 (Some err, q2) \<Rightarrow> (Some err, endpoint, q2)
                               | (None, q2) \<Rightarrow>
                                   (case emit e (QMP (NetdevDel (tap_Name tap))) q2 of
                                      (Some err, q3) \<Rightarrow> (Some err, endpoint, q3)
                                    | (None, q3) \<Rightarrow> (None, endpoint, q3)))))))"

section \<open>Building the launch configuration\<close>

text \<open>
  Modelled from the spec: \<^verbatim>\<open>types.NewBridge\<close> (same package as \<^verbatim>\<open>types.Bridge\<close>) builds a
  bridge of the given type, id, devices and address; the capacity it gives a bridge of
  each type, and the name of each type, are answers of the environment.
\<close>

definition NewBridge :: "env \<Rightarrow> BridgeType \<Rightarrow> string \<Rightarrow> (nat \<times> string) list \<Rightarrow> int \<Rightarrow> Bridge" where
  "NewBridge e t ID devs a =
     \<lparr>bridge_Type = t, bridge_ID = ID, bridge_Addr = a, Devices = devs,
      MaxCapacity = bridgeMaxCapacity e t\<rparr>"

text \<open>Methods of \<^verbatim>\<open>qemuArchBase\<close> used while the configuration is built.\<close>

definition setBridges :: "qemuArchBase \<Rightarrow> Bridge list \<Rightarrow> qemuArchBase" where
  "setBridges a bs = a\<lparr>Bridges := bs\<rparr>"

definition arch_bridges :: "env \<Rightarrow> qemuArchBase \<Rightarrow> 32 word \<Rightarrow> qemuArchBase" where
  "arch_bridges e a number =
     a\<lparr>Bridges := Bridges a @
          map (\<lambda>i. NewBridge e PCI (bridgeTypeName e PCI @ ''-bridge-'' @ fmt_d i) [] 0)
              [0 ..< unat number]\<rparr>"

definition enableNestingChecks :: "qemuArchBase \<Rightarrow> qemuArchBase" where
  "enableNestingChecks a = a\<lparr>nestedRun := True\<rparr>"

definition disableNestingChecks :: "qemuArchBase \<Rightarrow> qemuArchBase" where
  "disableNestingChecks a = a\<lparr>nestedRun := False\<rparr>"

definition enableVhostNet :: "qemuArchBase \<Rightarrow> qemuArchBase" where
  "enableVhostNet a = a\<lparr>vhost := True\<rparr>"

definition disableVhostNet :: "qemuArchBase \<Rightarrow> qemuArchBase" where
  "disableVhostNet a = a\<lparr>vhost := False\<rparr>"

definition arch_qemuPath :: "qemuArchBase \<Rightarrow> error + string" where
  "arch_qemuPath a =
     (case map_of (qemuPaths a) (machineType a) of
        None \<Rightarrow> Inl (Err (''Unknown machine type: '' @ machineType a))
      | Some p \<Rightarrow> Inr p)"

definition arch_cpuTopology :: "qemuArchBase \<Rightarrow> 32 word \<Rightarrow> 32 word \<Rightarrow> SMP" where
  "arch_cpuTopology a vcpus maxvcpus =
     \<lparr>CPUs = vcpus, Cores = 1, Threads = 1, Sockets = maxvcpus, MaxCPUs = maxvcpus\<rparr>"

definition arch_cpuModel :: "qemuArchBase \<Rightarrow> string" where
  "arch_cpuModel a = ''host''"

definition arch_memoryTopology :: "qemuArchBase \<Rightarrow> nat \<Rightarrow> nat \<Rightarrow> 8 word \<Rightarrow> Memory" where
  "arch_memoryTopology a memoryMb hostMemoryMb slots =
     (let memMax = fmt_d hostMemoryMb @ ''M'';
          mem = fmt_d memoryMb @ ''M''
      in \<lparr>mem_Size = mem, mem_Slots = slots, mem_MaxMem = memMax, mem_Path = ''''\<rparr>)"

fun appendBridges_loop :: "nat \<Rightarrow> Bridge list \<Rightarrow> Device list \<times> Bridge list" where
  "appendBridges_loop idx [] = ([], [])"
| "appendBridges_loop idx (b # bs) =
     (let (ds, bs') = appendBridges_loop (idx + 1) bs
      in if bridge_Type b = CCW then (ds, b # bs')
         else (BridgeDevice (bridge_Type b = PCIE) ''pcie.0'' (bridge_ID b) (idx + 1)
                 (fmt_d (2 + idx)) # ds,
               b\<lparr>bridge_Addr := 2 + int idx\<rparr> # bs'))"

definition appendBridges :: "qemuArchBase \<Rightarrow> Device list \<Rightarrow> Device list \<times> qemuArchBase" where
  "appendBridges a devices =
     (let (ds, bs) = appendBridges_loop 0 (Bridges a) in (devices @ ds, a\<lparr>Bridges := bs\<rparr>))"

definition appendConsole :: "qemuArchBase \<Rightarrow> Device list \<Rightarrow> string \<Rightarrow> error + Device list" where
  "appendConsole a devices path = Inr (devices @ [SerialDevice (nestedRun a), CharDevice path])"

definition arch_appendImage :: "env \<Rightarrow> qemuArchBase \<Rightarrow> Device list \<Rightarrow> string \<Rightarrow> error + Device list" where
  "arch_appendImage e a devices path =
     (case genericImage e path of
        Inl err \<Rightarrow> Inl err
      | Inr driveID \<Rightarrow>
          if path = '''' \<or> driveID = ''''
          then Inl (Err ''Failed to append block device Empty File, ID or Format for drive'')
          else Inr (devices @ [ImageDevice (take 31 driveID)]))"

definition appendSCSIController ::
  "env \<Rightarrow> qemuArchBase \<Rightarrow> Device list \<Rightarrow> bool \<Rightarrow> Device list \<times> string option" where
  "appendSCSIController e a devices enableIOThreads =
     (let t = (if enableIOThreads then Some (''iothread-'' @ GenerateRandomHex e) else None)
      in (devices @ [SCSIControllerDevice (nestedRun a) t], t))"

definition appendRNGDevice :: "qemuArchBase \<Rightarrow> Device list \<Rightarrow> string \<Rightarrow> string \<Rightarrow> error + Device list" where
  "appendRNGDevice a devices rid filename = Inr (devices @ [RngDevice rid filename])"

text \<open>
  \<^verbatim>\<open>qemu.setup\<close>, in the blocks of the source. \<^verbatim>\<open>valid\<close> receives the configuration by
  pointer: its answer is the configuration as it leaves the call, which is the one the
  controller keeps. Whether a store is passed is the boolean \<open>vcStore\<close>.

  \<open>setup_load\<close> is the block that decides whether the state must be created: with a
  store, when loading the state fails; without one, when the state has no UUID.
  \<open>setup_create\<close> is the body of \<^verbatim>\<open>if create\<close>: bridges, UUID, the flag for VFIO on the
  root bus, the runtime directory and a first write of the state. \<open>setup_checks\<close> is the
  end of the function: the nesting checks and vhost-net.
\<close>

definition setup_load :: "env \<Rightarrow> qemu \<Rightarrow> bool \<times> qemu" where
  "setup_load e q =
     (if has_store q
      then (case store_Load e of
              Inl err \<Rightarrow> (True, q)
            | Inr st \<Rightarrow> (False, q\<lparr>state := st\<rparr>))
      else if UUID (state q) = '''' then (True, q) else (False, q))"

definition setup_create :: "env \<Rightarrow> qemu \<Rightarrow> error option \<times> qemu" where
  "setup_create e q =
     (let q1 = q\<lparr>arch := arch_bridges e (arch q) (DefaultBridges (config q))\<rparr>;
          q2 = q1\<lparr>state := (state q1)\<lparr>UUID := uuid_Generate e\<rparr>\<rparr>;
          q3 = q2\<lparr>state := (state q2)\<lparr>HotplugVFIOOnRootBus :=
                     cfg_HotplugVFIOOnRootBus (config q2)\<rparr>\<rparr>
      in (case MkdirAll e of
            Some err \<Rightarrow> (Some err, q3)
          | None \<Rightarrow> storeState e q3))"

definition setup_checks :: "bool \<Rightarrow> qemu \<Rightarrow> qemu" where
  "setup_checks nested q =
     (let q1 = (if \<not> DisableNestingChecks (config q) \<and> nested
                then q\<lparr>arch := enableNestingChecks (arch q)\<rparr>
                else q\<lparr>arch := disableNestingChecks (arch q)\<rparr>)
      in if \<not> DisableVhostNet (config q1)
         then q1\<lparr>arch := enableVhostNet (arch q1)\<rparr>
         else q1\<lparr>arch := disableVhostNet (arch q1)\<rparr>)"

definition qemu_setup :: "env \<Rightarrow> string \<Rightarrow> HypervisorConfig \<Rightarrow> bool \<Rightarrow> qemu \<Rightarrow> error option \<times> qemu" where
  "qemu_setup e sid hypervisorConfig vcStore q0 =
     (case valid e hypervisorConfig of
        Inl err \<Rightarrow> (Some err, q0)
      | Inr hc \<Rightarrow>
          (let q1 = q0\<lparr>qemu_id := sid, has_store := vcStore, config := hc,
                       arch := newQemuArch e hc\<rparr>
           in (case InitrdAssetPath e (config q1) of
                 Inl err \<Rightarrow> (Some err, q1)
               | Inr initrdPath \<Rightarrow>
                   (case ImageAssetPath e (config q1) of
                      Inl err \<Rightarrow> (Some err, q1)
                    | Inr imagePath \<Rightarrow>
                        (case setup_load e
                                (q1\<lparr>nvdimmCount := (if initrdPath = '''' \<and> imagePath \<noteq> ''''
                                                      then 1 else 0)\<rparr>) of
                           (create, q2) \<Rightarrow>
                             (case (if create
                                    then setup_create e
                                           (q2\<lparr>arch := setBridges (arch q2) (state_Bridges (state q2))\<rparr>)
                                    else (None, q2\<lparr>arch := setBridges (arch q2)
                                                               (state_Bridges (state q2))\<rparr>)) of
                                (Some err, q3) \<Rightarrow> (Some err, q3)
                              | (None, q3) \<Rightarrow>
                                  (case RunningOnVMM e of
                                     Inl err \<Rightarrow> (Some err, q3)
                                   | Inr nested \<Rightarrow> (None, setup_checks nested q3))))))))"

definition cpuTopology :: "qemu \<Rightarrow> SMP" where
  "cpuTopology q = arch_cpuTopology (arch q) (NumVCPUs (config q)) (DefaultMaxVCPUs (config q))"

definition memoryTopology :: "env \<Rightarrow> qemu \<Rightarrow> error + Memory" where
  "memoryTopology e q =
     (case hostMemMB e of
        Inl err \<Rightarrow> Inl err
      | Inr hostMemMb \<Rightarrow>
          (let memMb = unat (MemorySize (config q))
           in Inr (arch_memoryTopology (arch q) memMb hostMemMb (ucast (MemSlots (config q))))))"

definition qemuPath :: "env \<Rightarrow> qemu \<Rightarrow> error + string" where
  "qemuPath e q =
     (case HypervisorAssetPath e (config q) of
        Inl err \<Rightarrow> Inl err
      | Inr p \<Rightarrow>
          (case (if p = '''' then arch_qemuPath (arch q) else Inr p) of
             Inl err \<Rightarrow> Inl err
           | Inr p \<Rightarrow>
               if Stat e p = StatNotExist
               then Inl (Err (''QEMU path ('' @ p @ '') does not exist''))
               else Inr p))"

definition getSandboxConsole :: "env \<Rightarrow> string \<Rightarrow> error + string" where
  "getSandboxConsole e sid = BuildSocketPath e sid ''console.sock''"

text \<open>
  \<^verbatim>\<open>createQmpSocket\<close> replaces the QMP channel of the controller by a fresh one, which
  has no session.
\<close>

definition createQmpSocket :: "env \<Rightarrow> qemu \<Rightarrow> (error + QMPSocket list) \<times> qemu" where
  "createQmpSocket e q =
     (case BuildSocketPath e (qemu_id q) ''qmp.sock'' of
        Inl err \<Rightarrow> (Inl err, q)
      | Inr monitorSockPath \<Rightarrow>
          (Inr [QMPSocket ''unix'' monitorSockPath True True],
           q\<lparr>qmp_open := False, qmp_path := monitorSockPath\<rparr>))"

definition appendImage :: "env \<Rightarrow> qemu \<Rightarrow> Device list \<Rightarrow> error + Device list" where
  "appendImage e q devices =
     (case ImageAssetPath e (config q) of
        Inl err \<Rightarrow> Inl err
      | Inr imagePath \<Rightarrow>
          if imagePath \<noteq> '''' then arch_appendImage e (arch q) devices imagePath
          else Inr devices)"

definition buildDevices ::
  "env \<Rightarrow> string \<Rightarrow> qemu \<Rightarrow> (error + Device list \<times> string option) \<times> qemu" where
  "buildDevices e initrdPath q =
     (case getSandboxConsole e (qemu_id q) of
        Inl err \<Rightarrow> (Inl err, q)
      | Inr console \<Rightarrow>
          (let (devices, a) = appendBridges (arch q) [];
               q1 = q\<lparr>arch := a\<rparr>
           in (case appendConsole (arch q1) devices console of
                 Inl err \<Rightarrow> (Inl err, q1)
               | Inr devices \<Rightarrow>
                   (case (if initrdPath = '''' then appendImage e q1 devices else Inr devices) of
                      Inl err \<Rightarrow> (Inl err, q1)
                    | Inr devices \<Rightarrow>
                        if BlockDeviceDriver (config q1) = VirtioSCSI
                        then (Inr (appendSCSIController e (arch q1) devices
                                     (EnableIOThreads (config q1))), q1)
                        else (Inr (devices, None), q1)))))"

text \<open>
  \<^verbatim>\<open>setupTemplate\<close> and \<^verbatim>\<open>setupFileBackedMem\<close> write through pointers to the knobs and
  the memory description; the model returns both.
\<close>

definition setupTemplate :: "qemu \<Rightarrow> Knobs \<Rightarrow> Memory \<Rightarrow> MigrationType \<times> Knobs \<times> Memory" where
  "setupTemplate q knobs memory =
     (if BootToBeTemplate (config q) \<or> BootFromTemplate (config q)
      then (let knobs = knobs\<lparr>FileBackedMem := True\<rparr>;
                memory = memory\<lparr>mem_Path := MemoryPath (config q)\<rparr>;
                knobs = (if BootToBeTemplate (config q) then knobs\<lparr>MemShared := True\<rparr> else knobs);
                incoming = (if BootFromTemplate (config q) then MigrationDefer else MigrationNone)
            in (incoming, knobs, memory))
      else (MigrationNone, knobs, memory))"

definition fallbackFileBackedMemDir :: string where
  "fallbackFileBackedMemDir = ''/dev/shm''"

definition setupFileBackedMem :: "env \<Rightarrow> qemu \<Rightarrow> Knobs \<Rightarrow> Memory \<Rightarrow> Knobs \<times> Memory" where
  "setupFileBackedMem e q knobs memory =
     (let target = (if FileBackedMemRootDir (config q) \<noteq> '''' then FileBackedMemRootDir (config q)
                    else fallbackFileBackedMemDir)
      in if Stat e target \<noteq> StatOK then (knobs, memory)
         else (knobs\<lparr>FileBackedMem := True, MemShared := True\<rparr>, memory\<lparr>mem_Path := target\<rparr>))"

definition templating_error :: error where
  "templating_error =
     Err ''VM templating has been enabled with either virtio-fs or file backed memory and this configuration will not work''"

text \<open>
  \<^verbatim>\<open>createSandbox\<close>. The launch configuration is stored in the controller only by the last
  statement.
\<close>

definition createSandbox ::
  "env \<Rightarrow> string \<Rightarrow> HypervisorConfig \<Rightarrow> bool \<Rightarrow> qemu \<Rightarrow> error option \<times> qemu" where
  "createSandbox e sid hypervisorConfig vcStore q0 =
     (case qemu_setup e sid hypervisorConfig vcStore q0 of
        (Some err, q) \<Rightarrow> (Some err, q)
      | (None, q) \<Rightarrow>
     (case getQemuMachine q of
        Inl err \<Rightarrow> (Some err, q)
      | Inr m \<Rightarrow>
     (let smp = cpuTopology q in
      case memoryTopology e q of
        Inl err \<Rightarrow> (Some err, q)
      | Inr memory \<Rightarrow>
     (let knobs = \<lparr>NoUserConfig = True, NoDefaults = True, NoGraphic = True, Daemonize = True,
                   knob_HugePages = HugePages (config q), knob_MemPrealloc = MemPrealloc (config q),
                   FileBackedMem = False, MemShared = False, knob_Mlock = Mlock (config q),
                   knob_Realtime = Realtime (config q)\<rparr> in
      case KernelAssetPath e (config q) of
        Inl err \<Rightarrow> (Some err, q)
      | Inr kernelPath \<Rightarrow>
     (case InitrdAssetPath e (config q) of
        Inl err \<Rightarrow> (Some err, q)
      | Inr initrdPath \<Rightarrow>
     (let kernel = \<lparr>kernel_Path = kernelPath, kernel_InitrdPath = initrdPath,
                    kernel_Params = kernelParameters SerializeParams q\<rparr>;
          (incoming, knobs, memory) = setupTemplate q knobs memory in
      case (if SharedFS (config q) = VirtioFS \<or> FileBackedMemRootDir (config q) \<noteq> ''''
            then (if \<not> (BootToBeTemplate (config q) \<or> BootFromTemplate (config q))
                  then (let (knobs, memory) = setupFileBackedMem e q knobs memory;
                            knobs = (if HugePages (config q) then knobs\<lparr>knob_MemPrealloc := True\<rparr>
                                     else knobs)
                        in Inr (knobs, memory))
                  else Inl templating_error)
            else Inr (knobs, memory)) of
        Inl err \<Rightarrow> (Some err, q)
      | Inr (knobs, memory) \<Rightarrow>
     (if UUID (state q) = '''' then (Some (Err ''UUID should not be empty''), q)
      else
     (case createQmpSocket e q of
        (Inl err, q) \<Rightarrow> (Some err, q)
      | (Inr qmpSockets, q) \<Rightarrow>
     (case buildDevices e initrdPath q of
        (Inl err, q) \<Rightarrow> (Some err, q)
      | (Inr (devices, ioThread), q) \<Rightarrow>
     (let cpuModel = arch_cpuModel (arch q) in
      case FirmwareAssetPath e (config q) of
        Inl err \<Rightarrow> (Some err, q)
      | Inr firmwarePath \<Rightarrow>
     (case qemuPath e q of
        Inl err \<Rightarrow> (Some err, q)
      | Inr qpath \<Rightarrow>
     (let qc = \<lparr>cfg_Name = ''sandbox-'' @ qemu_id q, cfg_UUID = UUID (state q),
                cfg_Path = qpath, cfg_Machine = m, cfg_SMP = smp, cfg_Memory = memory,
                cfg_Devices = devices, cfg_CPUModel = cpuModel, cfg_Kernel = kernel,
                cfg_RTC = (''utc'', ''slew''), cfg_QMPSockets = qmpSockets, cfg_Knobs = knobs,
                cfg_Incoming = incoming, cfg_VGA = ''none'',
                cfg_GlobalParam = ''kvm-pit.lost_tick_policy=discard'', cfg_Bios = firmwarePath,
                cfg_PidFile = filepath_Join e [RunVMStoragePath e, qemu_id q, ''pid''],
                cfg_LogFile = '''', cfg_IOThreads = []\<rparr>;
          qc = (case ioThread of Some t \<Rightarrow> qc\<lparr>cfg_IOThreads := [t]\<rparr> | None \<Rightarrow> qc) in
      case appendRNGDevice (arch q) (cfg_Devices qc) ''rng0'' (EntropySource (config q)) of
        Inl err \<Rightarrow> (Some err, q)
      | Inr ds \<Rightarrow> (None, q\<lparr>qemuConfig := qc\<lparr>cfg_Devices := ds\<rparr>\<rparr>)))))))))))))"

section \<open>Zero values and a well-behaved environment\<close>

text \<open>
  The Go zero values of the records, from which concrete inputs are built, and an
  environment in which every outside call succeeds.
\<close>

definition zero_HypervisorConfig :: HypervisorConfig where
  "zero_HypervisorConfig =
     \<lparr>Debug = False, NumVCPUs = 0, DefaultMaxVCPUs = 0, MemorySize = 0, MemSlots = 0,
      DefaultBridges = 0, UseVSock = False, KernelParams = [], SharedFS = NoSharedFS,
      FileBackedMemRootDir = '''', MemoryPath = '''', BootToBeTemplate = False,
      BootFromTemplate = False, HugePages = False, MemPrealloc = False, Realtime = False,
      Mlock = False, BlockDeviceDriver = OtherBlockDriver '''', BlockDeviceCacheSet = False,
      BlockDeviceCacheDirect = False, BlockDeviceCacheNoflush = False, EnableIOThreads = False,
      DisableNestingChecks = False, DisableVhostNet = False, cfg_HotplugVFIOOnRootBus = False,
      MachineAccelerators = '''', EntropySource = '''', VMid = ''''\<rparr>"

definition zero_Machine :: Machine where
  "zero_Machine = \<lparr>machine_Type = '''', machine_Options = ''''\<rparr>"

definition zero_Bridge :: Bridge where
  "zero_Bridge = \<lparr>bridge_Type = PCI, bridge_ID = '''', bridge_Addr = 0, Devices = [], MaxCapacity = 0\<rparr>"

definition zero_qemuArchBase :: qemuArchBase where
  "zero_qemuArchBase =
     \<lparr>machineType = '''', nestedRun = False, vhost = False, qemuPaths = [],
      supportedQemuMachines = [], kernelParamsNonDebug = [], kernelParamsDebug = [],
      kernelParams = [], Bridges = [], guestMemoryHotplug = True\<rparr>"

definition zero_QemuState :: QemuState where
  "zero_QemuState =
     \<lparr>state_Bridges = [], HotpluggedVCPUs = [], HotpluggedMemory = 0, UUID = '''',
      HotplugVFIOOnRootBus = False, VirtiofsdPid = 0\<rparr>"

definition zero_Knobs :: Knobs where
  "zero_Knobs =
     \<lparr>NoUserConfig = False, NoDefaults = False, NoGraphic = False, Daemonize = False,
      knob_HugePages = False, knob_MemPrealloc = False, FileBackedMem = False,
      MemShared = False, knob_Mlock = False, knob_Realtime = False\<rparr>"

definition zero_Memory :: Memory where
  "zero_Memory = \<lparr>mem_Size = '''', mem_Slots = 0, mem_MaxMem = '''', mem_Path = ''''\<rparr>"

definition zero_SMP :: SMP where
  "zero_SMP = \<lparr>CPUs = 0, Cores = 0, Threads = 0, Sockets = 0, MaxCPUs = 0\<rparr>"

definition zero_Kernel :: Kernel where
  "zero_Kernel = \<lparr>kernel_Path = '''', kernel_InitrdPath = '''', kernel_Params = ''''\<rparr>"

definition zero_Config :: Config where
  "zero_Config =
     \<lparr>cfg_Name = '''', cfg_UUID = '''', cfg_Path = '''', cfg_Machine = zero_Machine,
      cfg_SMP = zero_SMP, cfg_Memory = zero_Memory, cfg_Devices = [], cfg_CPUModel = '''',
      cfg_Kernel = zero_Kernel, cfg_RTC = ('''', ''''), cfg_QMPSockets = [],
      cfg_Knobs = zero_Knobs, cfg_Incoming = MigrationNone, cfg_VGA = '''',
      cfg_GlobalParam = '''', cfg_Bios = '''', cfg_PidFile = '''', cfg_LogFile = '''',
      cfg_IOThreads = []\<rparr>"

definition zero_qemu :: qemu where
  "zero_qemu =
     \<lparr>qemu_id = '''', has_store = False, config = zero_HypervisorConfig, qmp_open = False,
      qmp_path = '''', qemuConfig = zero_Config, state = zero_QemuState,
      arch = zero_qemuArchBase, nvdimmCount = 0, stopped = False, trace = []\<rparr>"

definition good_env :: env where
  "good_env =
     \<lparr>reply = (\<lambda>evs ev. None),
      hotpluggableCPUs = (\<lambda>evs. []),
      memoryDevices = (\<lambda>evs. []),
      ReadFile = (\<lambda>p. Inr ''100''),
      Stat = (\<lambda>p. StatOK),
      getHostMemorySizeKb = Inr 4194304,
      valid = (\<lambda>c. Inr c),
      newQemuArch = (\<lambda>c. zero_qemuArchBase\<lparr>machineType := ''pc'',
                         supportedQemuMachines := [\<lparr>machine_Type = ''pc'', machine_Options = ''accel=kvm''\<rparr>],
                         qemuPaths := [(''pc'', ''/usr/bin/qemu-system-x86_64'')]\<rparr>),
      InitrdAssetPath = (\<lambda>c. Inr ''''),
      ImageAssetPath = (\<lambda>c. Inr ''/image''),
      KernelAssetPath = (\<lambda>c. Inr ''/vmlinuz''),
      FirmwareAssetPath = (\<lambda>c. Inr ''''),
      HypervisorAssetPath = (\<lambda>c. Inr ''''),
      store_Load = Inl (Err ''not found''),
      uuid_Generate = ''4d2cb9e6-7a1b-4c3e-9f60-0a1b2c3d4e5f'',
      MkdirAll = None,
      RunningOnVMM = Inr False,
      BuildSocketPath = (\<lambda>i n. Inr (''/run/vc/vm/'' @ i @ ''/'' @ n)),
      filepath_Join = (\<lambda>ps. Join ps ''/''),
      RunVMStoragePath = ''/run/vc/vm'',
      bridgeMaxCapacity = (\<lambda>t. case t of CCW \<Rightarrow> 65535 | _ \<Rightarrow> 30),
      bridgeTypeName = (\<lambda>t. case t of PCI \<Rightarrow> ''pci'' | PCIE \<Rightarrow> ''pcie'' | CCW \<Rightarrow> ''ccw''),
      AddressFormatCCW = (\<lambda>b a. Inr (''fe.0.'' @ a)),
      AddressFormatCCWForVirtServer = (\<lambda>b a. Inr (''0.0.'' @ a)),
      GetSCSIIdLun = (\<lambda>i. Inr (i div 256, i mod 256)),
      os_Open = (\<lambda>p. None),
      BLKGETSIZE64 = (\<lambda>p. Inr 4096),
      genericImage = (\<lambda>p. Inr ''image-0''),
      GenerateRandomHex = ''0011223344556677''\<rparr>"

text \<open>An architecture object with one empty PCI bridge of thirty slots at host address 2.\<close>

definition one_pci_bridge :: qemuArchBase where
  "one_pci_bridge =
     zero_qemuArchBase\<lparr>machineType := ''pc'',
       supportedQemuMachines := [\<lparr>machine_Type = ''pc'', machine_Options = ''''\<rparr>],
       Bridges := [\<lparr>bridge_Type = PCI, bridge_ID = ''pci-bridge-0'', bridge_Addr = 2,
                     Devices = [], MaxCapacity = 30\<rparr>]\<rparr>"

text \<open>An environment in which no QMP session can be started.\<close>

definition refusing_env :: env where
  "refusing_env =
     good_env\<lparr>reply := (\<lambda>evs ev. if ev = QMPStart then Some (Err ''connection refused'') else None)\<rparr>"

text \<open>A memory device of negative size.\<close>

definition negative_memory :: memoryDevice where
  "negative_memory = \<lparr>md_slot = 0, md_sizeMB = - 1, md_addr = 0, md_probe = False\<rparr>"

section \<open>Notions used to state the properties of CPU removal\<close>








section \<open>Notions used to state the properties of CPU addition\<close>

text \<open>
  The number of vCPUs that \<^verbatim>\<open>hotplugAddCPUs\<close> computes before adding, the amount it
  really tries to add, and the entries that \<open>k\<close> successful additions append to a list of
  length \<open>n\<close>.
\<close>

definition currentVCPUs :: "qemu \<Rightarrow> 32 word" where
  "currentVCPUs q = CPUs (cfg_SMP (qemuConfig q)) + of_nat (length (HotpluggedVCPUs (state q)))"

definition clamped_amount :: "qemu \<Rightarrow> 32 word \<Rightarrow> 32 word" where
  "clamped_amount q amount =
     (if currentVCPUs q + amount > DefaultMaxVCPUs (config q)
      then DefaultMaxVCPUs (config q) - currentVCPUs q else amount)"

definition new_cpus :: "nat \<Rightarrow> nat \<Rightarrow> CPUDevice list" where
  "new_cpus n k = map (\<lambda>j. CPUDevice (''cpu-'' @ fmt_d (n + j))) [0 ..< k]"

text \<open>
  A running controller with one boot vCPU and room for three, and an environment that
  offers four free hot-pluggable CPUs.
\<close>

definition free_cpu :: HotpluggableCPU where
  "free_cpu = \<lparr>hc_Type = ''host-x86_64-cpu'', QOMPath = '''', prop_Socket = 1, prop_Die = 0,
                prop_Core = 0, prop_Thread = 0\<rparr>"

definition four_free_env :: env where
  "four_free_env = good_env\<lparr>hotpluggableCPUs := (\<lambda>evs. [free_cpu, free_cpu, free_cpu, free_cpu])\<rparr>"

definition room_for_three :: qemu where
  "room_for_three =
     zero_qemu\<lparr>qmp_open := True,
       config := zero_HypervisorConfig\<lparr>NumVCPUs := 1, DefaultMaxVCPUs := 3\<rparr>,
       qemuConfig := zero_Config\<lparr>cfg_SMP := zero_SMP\<lparr>CPUs := 1\<rparr>\<rparr>,
       arch := one_pci_bridge\<rparr>"

section \<open>Inputs for the hot-plug add flows\<close>

text \<open>
  An environment in which QEMU refuses every \<^verbatim>\<open>device_add\<close> and accepts everything else,
  a VFIO device, a tap endpoint, a block drive, and running controllers with one empty
  bridge: a PCI bridge with the block driver \<open>virtio-blk\<close>, and a CCW bridge of four
  slots with the block driver \<open>virtio-blk-ccw\<close>.
\<close>

definition refusing_device_add :: env where
  "refusing_device_add =
     good_env\<lparr>reply := (\<lambda>evs ev. case ev of
         QMP (PCIVFIODeviceAdd _ _ _ _) \<Rightarrow> Some (Err ''device_add failed'')
       | QMP (NetPCIDeviceAdd _ _ _ _ _ _) \<Rightarrow> Some (Err ''device_add failed'')
       | QMP (PCIDeviceAdd _ _ _ _ _) \<Rightarrow> Some (Err ''device_add failed'')
       | QMP (DeviceAdd _ _ _ _) \<Rightarrow> Some (Err ''device_add failed'')
       | _ \<Rightarrow> None)\<rparr>"

definition vfio0 :: VFIODev where
  "vfio0 = \<lparr>vfio_ID = ''vfio0'', vfio_Type = VFIODeviceNormalType, BDF = ''0000:01:00.0'',
            SysfsDev = ''''\<rparr>"

definition tap0 :: Endpoint where
  "tap0 = \<lparr>ep_Type = TapEndpointType,
           ep_Tap = \<lparr>tap_ID = ''tap0'', tap_Name = ''tap0_kata'', VMFds = [7], VhostFds = [8]\<rparr>,
           ep_HardwareAddr = ''02:00:ca:fe:00:01'', ep_PciAddr = ''''\<rparr>"

definition drive0 :: BlockDrive where
  "drive0 = \<lparr>drive_File = ''/dev/loop0'', drive_ID = ''drive0'', drive_Index = 0, PCIAddr = '''',
             DevNo = '''', NvdimmID = ''''\<rparr>"

definition empty_pci_bridge :: Bridge where
  "empty_pci_bridge = \<lparr>bridge_Type = PCI, bridge_ID = ''pci-bridge-0'', bridge_Addr = 2,
                        Devices = [], MaxCapacity = 30\<rparr>"

definition empty_ccw_bridge :: Bridge where
  "empty_ccw_bridge = \<lparr>bridge_Type = CCW, bridge_ID = ''ccw-bridge-0'', bridge_Addr = 0,
                        Devices = [], MaxCapacity = 4\<rparr>"

definition running_pci :: qemu where
  "running_pci =
     zero_qemu\<lparr>qmp_open := True,
       config := zero_HypervisorConfig\<lparr>BlockDeviceDriver := VirtioBlock\<rparr>,
       arch := zero_qemuArchBase\<lparr>machineType := ''pc'',
                 supportedQemuMachines := [\<lparr>machine_Type = ''pc'', machine_Options = ''''\<rparr>],
                 Bridges := [empty_pci_bridge]\<rparr>\<rparr>"

definition running_ccw :: qemu where
  "running_ccw =
     zero_qemu\<lparr>qmp_open := True,
       config := zero_HypervisorConfig\<lparr>BlockDeviceDriver := VirtioBlockCCW\<rparr>,
       arch := zero_qemuArchBase\<lparr>machineType := ''s390-ccw-virtio'',
                 supportedQemuMachines := [\<lparr>machine_Type = ''s390-ccw-virtio'', machine_Options = ''''\<rparr>],
                 Bridges := [empty_ccw_bridge]\<rparr>\<rparr>"

section \<open>Inputs for the creation of a sandbox\<close>

text \<open>
  The configuration of the tests, with virtio-fs and boot-to-be-template switched on, and
  with a root directory for file-backed memory; an environment whose host reports no
  memory, and one in which no path exists on disk.
\<close>

definition test_config :: HypervisorConfig where
  "test_config =
     zero_HypervisorConfig\<lparr>NumVCPUs := 1, DefaultMaxVCPUs := 8, MemorySize := 2048,
       DefaultBridges := 1, BlockDeviceDriver := VirtioSCSI\<rparr>"

definition templated_virtiofs :: HypervisorConfig where
  "templated_virtiofs =
     test_config\<lparr>SharedFS := VirtioFS, BootToBeTemplate := True, MemoryPath := ''/dev/shm''\<rparr>"


definition no_host_memory :: env where
  "no_host_memory = good_env\<lparr>getHostMemorySizeKb := Inr 0\<rparr>"



section \<open>Verified properties\<close>

subsection \<open>Kernel parameters\<close>


subsection \<open>Process ids\<close>

text \<open>
  C10. When the PID file cannot be read, or its contents, trimmed of newlines, tabs and
  spaces, do not parse as an integer, \<^verbatim>\<open>getPids\<close> returns exactly \<open>[0]\<close>, whatever the
  pid of virtiofsd. When they parse as \<open>p\<close>, it returns \<open>[p]\<close> if the pid of virtiofsd
  is zero and \<open>[p, VirtiofsdPid]\<close> otherwise.
\<close>

theorem getPids_result:
  "(\<forall>err. ReadFile e (cfg_PidFile (qemuConfig q)) = Inl err \<longrightarrow> getPids e q = [0])
   \<and> (\<forall>data. ReadFile e (cfg_PidFile (qemuConfig q)) = Inr data
          \<and> Atoi (Trim data [CHR 0x0A, CHR 0x09, CHR '' '']) = None \<longrightarrow> getPids e q = [0])
   \<and> (\<forall>data p. ReadFile e (cfg_PidFile (qemuConfig q)) = Inr data
          \<and> Atoi (Trim data [CHR 0x0A, CHR 0x09, CHR '' '']) = Some p \<longrightarrow>
          getPids e q = (if VirtiofsdPid (state q) = 0 then [p]
                         else [p, VirtiofsdPid (state q)]))"
  by (simp add: getPids_def Let_def)

theorem getPids_result_witness:
  "getPids (good_env\<lparr>ReadFile := (\<lambda>p. Inl (Err ''no such file''))\<rparr>)
           (zero_qemu\<lparr>state := zero_QemuState\<lparr>VirtiofsdPid := 200\<rparr>\<rparr>) = [0]
   \<and> getPids (good_env\<lparr>ReadFile := (\<lambda>p. Inr '''')\<rparr>)
           (zero_qemu\<lparr>state := zero_QemuState\<lparr>VirtiofsdPid := 200\<rparr>\<rparr>) = [0]
   \<and> getPids (good_env\<lparr>ReadFile := (\<lambda>p. Inr ''100'')\<rparr>) zero_qemu = [100]
   \<and> getPids (good_env\<lparr>ReadFile := (\<lambda>p. Inr ''100'')\<rparr>)
           (zero_qemu\<lparr>state := zero_QemuState\<lparr>VirtiofsdPid := 200\<rparr>\<rparr>) = [100, 200]"
proof -
  let ?q = "zero_qemu\<lparr>state := zero_QemuState\<lparr>VirtiofsdPid := 200\<rparr>\<rparr>"
  have a0: "Atoi (Trim '''' [CHR 0x0A, CHR 0x09, CHR '' '']) = None" by code_simp
  have a1: "Atoi (Trim ''100'' [CHR 0x0A, CHR 0x09, CHR '' '']) = Some 100" by code_simp
  have v: "VirtiofsdPid (state ?q) = 200" "VirtiofsdPid (state zero_qemu) = 0"
    by (simp_all add: zero_qemu_def zero_QemuState_def)
  show ?thesis
    using getPids_result[of "good_env\<lparr>ReadFile := (\<lambda>p. Inl (Err ''no such file''))\<rparr>" ?q]
      getPids_result[of "good_env\<lparr>ReadFile := (\<lambda>p. Inr '''')\<rparr>" ?q]
      getPids_result[of "good_env\<lparr>ReadFile := (\<lambda>p. Inr ''100'')\<rparr>" zero_qemu]
      getPids_result[of "good_env\<lparr>ReadFile := (\<lambda>p. Inr ''100'')\<rparr>" ?q]
      a0 a1 v
    by simp
qed

subsection \<open>Stopping twice\<close>

lemma stopSandbox_stopped: "stopped (snd (stopSandbox e q))"
  by (simp add: stopSandbox_def Let_def split: prod.splits)

lemma stopSandbox_when_stopped: "stopped q \<Longrightarrow> stopSandbox e q = (None, q)"
  by (simp add: stopSandbox_def)

lemma stopSandbox_first:
  "(fst (stopSandbox e q) = None)
       = (stopped q \<or> (fst (qmpSetup e q) = None
                         \<and> fst (emit e (QMP Quit) (snd (qmpSetup e q))) = None))"
proof (cases "stopped q")
  case True
  then show ?thesis by (simp add: stopSandbox_def)
next
  case False
  obtain r1 q1 where a: "qmpSetup e q = (r1, q1)" by (cases "qmpSetup e q")
  obtain r2 q2 where b: "emit e (QMP Quit) q1 = (r2, q2)" by (cases "emit e (QMP Quit) q1")
  from False a b show ?thesis
    by (cases r1; cases r2) (simp_all add: stopSandbox_def Let_def)
qed

lemma stopSandbox_run:
  "stopSandbox e q =
       (if stopped q then (None, q)
        else if fst (qmpSetup e q) \<noteq> None
        then (fst (qmpSetup e q),
              (snd (qmpSetup e q))\<lparr>trace := trace (snd (qmpSetup e q)) @ [CleanupVM],
                                     stopped := True\<rparr>)
        else (reply e (trace (snd (qmpSetup e q))) (QMP Quit),
              (snd (qmpSetup e q))\<lparr>trace := trace (snd (qmpSetup e q)) @ [QMP Quit, CleanupVM],
                                     stopped := True\<rparr>))"
proof -
  obtain r1 q1 where a: "qmpSetup e q = (r1, q1)" by (cases "qmpSetup e q")
  show ?thesis
    unfolding a
    by (cases r1; cases "reply e (trace q1) (QMP Quit)")
      (simp_all add: stopSandbox_def a emit_def cleanupVM_def log_event_def Let_def)
qed

text \<open>
  C8, as the code has it. After a first call of \<^verbatim>\<open>stopSandbox\<close>, whatever that call
  returned, a second call returns no error and changes nothing: the controller and the
  trace of events are the same, so no QMP command is sent and no cleanup is done, because
  the first call left \<^verbatim>\<open>stopped\<close> set. The first call itself returns no error exactly when
  the instance was already stopped, or the QMP session could be set up and the quit
  command succeeded. Otherwise it returns that error: on an instance that is not stopped,
  the first call returns the error of the set-up of the QMP session and sends no quit
  command, or, after a set-up without error, the answer to the quit command that it sends;
  on both paths the cleanup of the VM is the last event and \<^verbatim>\<open>stopped\<close> is set, and nothing
  else of the controller differs from what the set-up left.
\<close>

theorem stopSandbox_second_call_noop:
  "fst (stopSandbox e (snd (stopSandbox e q))) = None
   \<and> snd (stopSandbox e (snd (stopSandbox e q))) = snd (stopSandbox e q)
   \<and> trace (snd (stopSandbox e (snd (stopSandbox e q)))) = trace (snd (stopSandbox e q))
   \<and> stopped (snd (stopSandbox e q))
   \<and> (fst (stopSandbox e q) = None)
       = (stopped q \<or> (fst (qmpSetup e q) = None
                         \<and> fst (emit e (QMP Quit) (snd (qmpSetup e q))) = None))
   \<and> stopSandbox e q =
       (if stopped q then (None, q)
        else if fst (qmpSetup e q) \<noteq> None
        then (fst (qmpSetup e q),
              (snd (qmpSetup e q))\<lparr>trace := trace (snd (qmpSetup e q)) @ [CleanupVM],
                                     stopped := True\<rparr>)
        else (reply e (trace (snd (qmpSetup e q))) (QMP Quit),
              (snd (qmpSetup e q))\<lparr>trace := trace (snd (qmpSetup e q)) @ [QMP Quit, CleanupVM],
                                     stopped := True\<rparr>))"
proof -
  have s: "stopped (snd (stopSandbox e q))" by (rule stopSandbox_stopped)
  then have second: "stopSandbox e (snd (stopSandbox e q)) = (None, snd (stopSandbox e q))"
    by (rule stopSandbox_when_stopped)
  from s second stopSandbox_first[of e q] stopSandbox_run[of e q] show ?thesis by simp
qed

text \<open>
  The claim as the specification states it, success both times, fails when the QMP
  session cannot be started: the first call returns the error (and the second succeeds).
\<close>

theorem stopSandbox_twice_counterexample:
  "fst (stopSandbox refusing_env zero_qemu) = Some (Err ''connection refused'')
   \<and> fst (stopSandbox refusing_env (snd (stopSandbox refusing_env zero_qemu))) = None"
  by (simp add: stopSandbox_def qmpSetup_def emit_def refusing_env_def good_env_def zero_qemu_def
      cleanupVM_def log_event_def Let_def)

subsection \<open>Removing memory\<close>

lemma qmp_cmds_append: "qmp_cmds (xs @ ys) = qmp_cmds xs @ qmp_cmds ys"
  by (induction xs rule: qmp_cmds.induct) simp_all

lemma qmpSetup_state: "state (snd (qmpSetup e q)) = state q"
  by (simp add: qmpSetup_def emit_def log_event_def split: option.splits)

lemma qmpSetup_cmds:
  "filter (\<lambda>c. c \<noteq> QMPCapabilities) (qmp_cmds (trace (snd (qmpSetup e q))))
     = filter (\<lambda>c. c \<noteq> QMPCapabilities) (qmp_cmds (trace q))"
  by (simp add: qmpSetup_def emit_def log_event_def qmp_cmds_append split: option.splits)

text \<open>
  C2, as the code has it. Removing memory never sends a QMP command other than the
  negotiation of capabilities of a session that had to be opened, and never changes the
  controller state. When the architecture does not support the hot-plugging of guest
  memory, it returns zero and the error \<open>guest memory hotplug not supported\<close> before
  anything else is done. Otherwise, for a device of negative size it returns zero and the
  error \<open>cannot hotplug negative size\<close>, again before anything else is done; for any other
  device it sets the QMP session up and returns zero with the result of that set-up, which
  is no error when the session is open or can be opened.
\<close>

theorem hotplugMemory_remove:
  "hotplugMemory e memDev removeDevice q =
     (if \<not> supportGuestMemoryHotplug (arch q)
      then ((0, Some (Err ''guest memory hotplug not supported'')), memDev, q)
      else if md_sizeMB memDev < 0
      then ((0, Some (Err (''cannot hotplug negative size ('' @ fmt_d_int (md_sizeMB memDev)
                @ '') memory''))), memDev, q)
      else ((0, fst (qmpSetup e q)), memDev, snd (qmpSetup e q)))
   \<and> state (snd (snd (hotplugMemory e memDev removeDevice q))) = state q
   \<and> filter (\<lambda>c. c \<noteq> QMPCapabilities)
         (qmp_cmds (trace (snd (snd (hotplugMemory e memDev removeDevice q)))))
       = filter (\<lambda>c. c \<noteq> QMPCapabilities) (qmp_cmds (trace q))"
proof -
  obtain r1 q1 where a: "qmpSetup e q = (r1, q1)" by (cases "qmpSetup e q")
  have run: "hotplugMemory e memDev removeDevice q =
     (if \<not> supportGuestMemoryHotplug (arch q)
      then ((0, Some (Err ''guest memory hotplug not supported'')), memDev, q)
      else if md_sizeMB memDev < 0
      then ((0, Some (Err (''cannot hotplug negative size ('' @ fmt_d_int (md_sizeMB memDev)
                @ '') memory''))), memDev, q)
      else ((0, fst (qmpSetup e q)), memDev, snd (qmpSetup e q)))"
    using a by (cases r1) (simp_all add: hotplugMemory_def Let_def)
  show ?thesis
    unfolding run using qmpSetup_state[of e q] qmpSetup_cmds[of e q] by simp
qed

text \<open>
  The claim as the specification states it, zero and no error for every memory device,
  fails for a device of size \<open>-1\<close>.
\<close>

theorem hotplugMemory_remove_counterexample:
  "fst (hotplugMemory good_env negative_memory removeDevice zero_qemu)
     = (0, Some (Err ''cannot hotplug negative size (-1) memory''))"
  by (simp add: hotplugMemory_def supportGuestMemoryHotplug_def negative_memory_def fmt_d_int_def
      fmt_d.simps digit_char_def zero_qemu_def zero_qemuArchBase_def)

subsection \<open>Removing CPUs\<close>

lemma word_succ_unat: "(i :: 32 word) < amount \<Longrightarrow> unat (i + 1) = Suc (unat i)"
proof -
  assume lt: "i < amount"
  then have "i \<noteq> - 1" by (metis word_order.extremum_strict)
  then have "1 + i \<noteq> 0" by (metis add.commute add_eq_0_iff)
  then show ?thesis by (simp add: unatSuc add.commute)
qed










lemma storeState_vcpus:
  "HotpluggedVCPUs (state (snd (storeState e q))) = HotpluggedVCPUs (state q)"
  by (simp add: storeState_def emit_def Let_def)






subsection \<open>Adding CPUs\<close>

lemma new_cpus_Suc:
  "CPUDevice (''cpu-'' @ fmt_d n) # new_cpus (Suc n) k = new_cpus n (Suc k)"
proof -
  have "[0 ..< Suc k] = 0 # map Suc [0 ..< k]"
    by (simp add: upt_conv_Cons map_Suc_upt del: upt_Suc)
  then show ?thesis by (simp add: new_cpus_def comp_def del: upt_Suc)
qed

lemma hotplugAddCPUs_loop_returns:
  "unat n < unat amount \<Longrightarrow>
   hotplugAddCPUs_loop e m amount hcs n q = (Inr (k, r), q') \<Longrightarrow>
   k = amount
   \<and> HotpluggedVCPUs (state q')
       = HotpluggedVCPUs (state q)
         @ new_cpus (length (HotpluggedVCPUs (state q))) (unat amount - unat n)"
proof (induction hcs arbitrary: n q)
  case Nil
  then show ?case by simp
next
  case (Cons hc hcs)
  let ?xs = "HotpluggedVCPUs (state q)"
  show ?case
  proof (cases "QOMPath hc \<noteq> ''''")
    case True
    with Cons.prems(2) have "hotplugAddCPUs_loop e m amount hcs n q = (Inr (k, r), q')" by simp
    from Cons.IH[OF Cons.prems(1) this] show ?thesis .
  next
    case False
    let ?special = "machine_Type m = ''pseries'' \<or> machine_Type m = ''s390-ccw-virtio''"
    let ?cmd = "QMP (CPUDeviceAdd (hc_Type hc) (''cpu-'' @ fmt_d (length ?xs))
                  (if ?special then '''' else fmt_d_int (prop_Socket hc))
                  (if ?special then '''' else fmt_d_int (prop_Die hc))
                  (fmt_d_int (prop_Core hc))
                  (if ?special then '''' else fmt_d_int (prop_Thread hc)))"
    show ?thesis
    proof (cases "reply e (trace q) ?cmd")
      case (Some err)
      let ?q1 = "q\<lparr>trace := trace q @ [?cmd]\<rparr>"
      from False Some Cons.prems(2)
      have "hotplugAddCPUs_loop e m amount hcs n ?q1 = (Inr (k, r), q')"
        by (simp add: emit_def Let_def split del: if_split)
      from Cons.IH[OF Cons.prems(1) this] show ?thesis by simp
    next
      case None
      let ?q2 = "q\<lparr>trace := trace q @ [?cmd],
                   state := (state q)\<lparr>HotpluggedVCPUs := ?xs @ [CPUDevice (''cpu-'' @ fmt_d (length ?xs))]\<rparr>\<rparr>"
      from Cons.prems(1) have lt: "n < amount" by (simp add: word_less_nat_alt)
      have un: "unat (n + 1) = Suc (unat n)" by (rule word_succ_unat[OF lt])
      show ?thesis
      proof (cases "n + 1 = amount")
        case True
        with False None Cons.prems(2)
        have res: "(Inr (amount, fst (storeState e ?q2)), snd (storeState e ?q2)) = (Inr (k, r), q')"
          by (simp add: emit_def Let_def split: prod.splits split del: if_split)
        then have k: "k = amount" and q': "q' = snd (storeState e ?q2)"
          by simp_all
        from True un have one: "unat amount - unat n = Suc 0" by (metis diff_Suc_1' Suc_diff_le diff_self_eq_0 le_refl)
        have "HotpluggedVCPUs (state q') = ?xs @ [CPUDevice (''cpu-'' @ fmt_d (length ?xs))]"
          unfolding q' by (simp add: storeState_vcpus)
        with k one show ?thesis by (simp add: new_cpus_def)
      next
        case neq: False
        with False None Cons.prems(2)
        have rec: "hotplugAddCPUs_loop e m amount hcs (n + 1) ?q2 = (Inr (k, r), q')"
          by (simp add: emit_def Let_def split del: if_split)
        from neq un Cons.prems(1) have lt2: "unat (n + 1) < unat amount"
          by (metis Suc_lessI word_unat_eq_iff)
        from Cons.IH[OF lt2 rec] have k: "k = amount"
          and l: "HotpluggedVCPUs (state q')
                   = (?xs @ [CPUDevice (''cpu-'' @ fmt_d (length ?xs))])
                     @ new_cpus (Suc (length ?xs)) (unat amount - unat (n + 1))"
          by simp_all
        have "unat amount - unat n = Suc (unat amount - unat (n + 1))"
          using lt2 un by simp
        with l k new_cpus_Suc[of "length ?xs" "unat amount - unat (n + 1)"]
        show ?thesis by simp
      qed
    qed
  qed
qed

lemma hotplugAddCPUs_unfold:
  "hotplugAddCPUs e amount q =
     (if clamped_amount q amount = 0 then ((0, None), q)
      else (case emit e (QMP QueryHotpluggableCPUs) q of
              (Some err, q1) \<Rightarrow>
                ((0, Some (Err (''failed to query hotpluggable CPUs: '' @ msg err))), q1)
            | (None, q1) \<Rightarrow>
                (case machine (arch q1) of
                   Inl err \<Rightarrow> ((0, Some (Err (''failed to query machine type: '' @ msg err))), q1)
                 | Inr m \<Rightarrow>
                     (case hotplugAddCPUs_loop e m (clamped_amount q amount)
                             (hotpluggableCPUs e (trace q)) 0 q1 of
                        (Inr ret, q2) \<Rightarrow> (ret, q2)
                      | (Inl hotpluggedVCPUs, q2) \<Rightarrow>
                          (let (r, q3) = storeState e q2
                           in ((hotpluggedVCPUs,
                                Some (Err (''failed to hot add vCPUs: only ''
                                   @ fmt_d (unat hotpluggedVCPUs) @ '' vCPUs of ''
                                   @ fmt_d (unat (clamped_amount q amount)) @ '' were added''))), q3))))))"
  unfolding hotplugAddCPUs_def clamped_amount_def currentVCPUs_def Let_def ..

text \<open>
  C4, as the code has it. After an error-free \<^verbatim>\<open>hotplugAddCPUs(n)\<close> that returns the count
  \<open>k\<close>, the list of hot-plugged CPUs is the list before the call followed by \<open>k\<close> new
  entries, and the entry at position \<open>p\<close> of the list has the id \<open>cpu-p\<close>, its position
  being the length of the list just before it was appended. The count \<open>k\<close> is \<open>n\<close> when
  the current number of vCPUs plus \<open>n\<close> does not exceed the maximum, and what is left up to
  the maximum otherwise (in \<^verbatim>\<open>uint32\<close> arithmetic).
\<close>

theorem hotplugAddCPUs_spec:
  assumes ok: "hotplugAddCPUs e amount q = ((k, None), q')"
  shows "HotpluggedVCPUs (state q')
           = HotpluggedVCPUs (state q) @ new_cpus (length (HotpluggedVCPUs (state q))) (unat k)
       \<and> length (HotpluggedVCPUs (state q')) = length (HotpluggedVCPUs (state q)) + unat k
       \<and> take (length (HotpluggedVCPUs (state q))) (HotpluggedVCPUs (state q'))
           = HotpluggedVCPUs (state q)
       \<and> (\<forall>p. length (HotpluggedVCPUs (state q)) \<le> p \<and> p < length (HotpluggedVCPUs (state q'))
              \<longrightarrow> HotpluggedVCPUs (state q') ! p = CPUDevice (''cpu-'' @ fmt_d p))
       \<and> k = clamped_amount q amount"
proof -
  let ?xs = "HotpluggedVCPUs (state q)"
  let ?a = "clamped_amount q amount"
  let ?q1 = "q\<lparr>trace := trace q @ [QMP QueryHotpluggableCPUs]\<rparr>"
  have main: "HotpluggedVCPUs (state q') = ?xs @ new_cpus (length ?xs) (unat k) \<and> k = ?a"
  proof (cases "?a = 0")
    case True
    with ok show ?thesis by (simp add: hotplugAddCPUs_unfold new_cpus_def)
  next
    case False
    show ?thesis
    proof (cases "reply e (trace q) (QMP QueryHotpluggableCPUs)")
      case (Some err)
      with False ok show ?thesis by (simp add: hotplugAddCPUs_unfold emit_def)
    next
      case None
      show ?thesis
      proof (cases "machine (arch q)")
        case (Inl err)
        with False None ok show ?thesis by (simp add: hotplugAddCPUs_unfold emit_def)
      next
        case (Inr m)
        obtain res q2 where
          l: "hotplugAddCPUs_loop e m ?a (hotpluggableCPUs e (trace q)) 0 ?q1 = (res, q2)"
          by (cases "hotplugAddCPUs_loop e m ?a (hotpluggableCPUs e (trace q)) 0 ?q1")
        from False None Inr ok l have "res = Inr (k, None) \<and> q2 = q'"
          by (cases res) (simp_all add: hotplugAddCPUs_unfold emit_def split: prod.splits)
        with l have l2:
          "hotplugAddCPUs_loop e m ?a (hotpluggableCPUs e (trace q)) 0 ?q1 = (Inr (k, None), q')"
          by simp
        from False have pos: "unat (0 :: 32 word) < unat ?a" by (simp add: unat_gt_0)
        from hotplugAddCPUs_loop_returns[OF pos l2] show ?thesis by simp
      qed
    qed
  qed
  then have l: "HotpluggedVCPUs (state q') = ?xs @ new_cpus (length ?xs) (unat k)" and k: "k = ?a"
    by simp_all
  have len: "length (HotpluggedVCPUs (state q')) = length ?xs + unat k"
    unfolding l by (simp add: new_cpus_def)
  have pre: "take (length ?xs) (HotpluggedVCPUs (state q')) = ?xs"
    unfolding l by simp
  have ids: "\<forall>p. length ?xs \<le> p \<and> p < length (HotpluggedVCPUs (state q'))
              \<longrightarrow> HotpluggedVCPUs (state q') ! p = CPUDevice (''cpu-'' @ fmt_d p)"
  proof (intro allI impI)
    fix p assume p: "length ?xs \<le> p \<and> p < length (HotpluggedVCPUs (state q'))"
    then have "length ?xs \<le> p" and "p < length ?xs + unat k" using len by simp_all
    then have "p - length ?xs < unat k" by linarith
    then have "new_cpus (length ?xs) (unat k) ! (p - length ?xs)
                 = CPUDevice (''cpu-'' @ fmt_d (length ?xs + (p - length ?xs)))"
      by (simp add: new_cpus_def)
    with p show "HotpluggedVCPUs (state q') ! p = CPUDevice (''cpu-'' @ fmt_d p)"
      unfolding l by (simp add: nth_append)
  qed
  from l len pre ids k show ?thesis by blast
qed

lemma hotplugAddCPUs_run_two:
  "fst (hotplugAddCPUs four_free_env 2 room_for_three) = (2, None)"
  by (simp add: hotplugAddCPUs_def Let_def emit_def machine_def storeState_def four_free_env_def
      good_env_def room_for_three_def zero_qemu_def zero_HypervisorConfig_def zero_Config_def
      zero_SMP_def zero_QemuState_def one_pci_bridge_def zero_qemuArchBase_def free_cpu_def
      fmt_d.simps digit_char_def fmt_d_int_def split del: if_split)

theorem hotplugAddCPUs_spec_witness:
  "fst (hotplugAddCPUs four_free_env 2 room_for_three) = (2, None)
   \<and> HotpluggedVCPUs (state room_for_three) = []
   \<and> HotpluggedVCPUs (state (snd (hotplugAddCPUs four_free_env 2 room_for_three)))
       = [CPUDevice ''cpu-0'', CPUDevice ''cpu-1'']
   \<and> clamped_amount room_for_three 2 = 2"
proof -
  have xs: "HotpluggedVCPUs (state room_for_three) = []"
    by (simp add: room_for_three_def zero_qemu_def zero_QemuState_def)
  have ok: "hotplugAddCPUs four_free_env 2 room_for_three
              = ((2, None), snd (hotplugAddCPUs four_free_env 2 room_for_three))"
    using hotplugAddCPUs_run_two by (metis prod.collapse)
  have two: "[0 ..< unat (2 :: 32 word)] = [0, 1]" by (simp add: upt_rec)
  from hotplugAddCPUs_spec[OF ok] hotplugAddCPUs_run_two xs two show ?thesis
    by (simp add: new_cpus_def fmt_d.simps digit_char_def)
qed

text \<open>
  The claim as the specification states it, the length grows by exactly \<open>n\<close>, fails when
  the request is cut down: with one vCPU and a maximum of three, a request for five adds
  two and returns no error.
\<close>

theorem hotplugAddCPUs_counterexample:
  "snd (fst (hotplugAddCPUs four_free_env 5 room_for_three)) = None
   \<and> length (HotpluggedVCPUs (state (snd (hotplugAddCPUs four_free_env 5 room_for_three))))
       = length (HotpluggedVCPUs (state room_for_three)) + 2"
  by (simp add: hotplugAddCPUs_def Let_def emit_def machine_def storeState_def four_free_env_def
      good_env_def room_for_three_def zero_qemu_def zero_HypervisorConfig_def zero_Config_def
      zero_SMP_def zero_QemuState_def one_pci_bridge_def zero_qemuArchBase_def free_cpu_def
      fmt_d.simps digit_char_def fmt_d_int_def split del: if_split)

subsection \<open>Bridge slots after a failed hot-plug add\<close>

text \<open>
  C1. The claim is that a bridge slot allocated by a hot-plug add is released when a
  later step fails, so that the bridges are as before the call on every error return. The
  code does this when a block device is added with the driver \<open>virtio-blk\<close>; it does not
  when QEMU refuses the \<^verbatim>\<open>device_add\<close> of a VFIO device on a bridge, of a network device,
  or of a block device with the driver \<open>virtio-blk-ccw\<close>: the call returns the error and
  slot 1 of the bridge still holds the device id.
\<close>

theorem hotplug_add_failure_keeps_slot:
  "Bridges (arch running_pci) = [empty_pci_bridge]
   \<and> Bridges (arch running_ccw) = [empty_ccw_bridge]
   \<and> fst (hotplugVFIODevice refusing_device_add vfio0 addDevice running_pci)
       = Some (Err ''device_add failed'')
   \<and> Bridges (arch (snd (hotplugVFIODevice refusing_device_add vfio0 addDevice running_pci)))
       = [empty_pci_bridge\<lparr>Devices := [(1, ''vfio0'')]\<rparr>]
   \<and> fst (hotplugNetDevice refusing_device_add tap0 addDevice running_pci)
       = Some (Err ''device_add failed'')
   \<and> Bridges (arch (snd (snd (hotplugNetDevice refusing_device_add tap0 addDevice running_pci))))
       = [empty_pci_bridge\<lparr>Devices := [(1, ''tap0'')]\<rparr>]
   \<and> fst (hotplugBlockDevice refusing_device_add drive0 addDevice running_ccw)
       = Some (Err ''device_add failed'')
   \<and> Bridges (arch (snd (snd (hotplugBlockDevice refusing_device_add drive0 addDevice running_ccw))))
       = [empty_ccw_bridge\<lparr>Devices := [(1, ''drive0'')]\<rparr>]
   \<and> fst (hotplugBlockDevice refusing_device_add drive0 addDevice running_pci)
       = Some (Err ''device_add failed'')
   \<and> Bridges (arch (snd (snd (hotplugBlockDevice refusing_device_add drive0 addDevice running_pci))))
       = [empty_pci_bridge]"
  by (simp add: hotplugVFIODevice_def hotplugNetDevice_def hotplugBlockDevice_def
      hotplugAddBlockDevice_def hotAddNetDevice_def deferred_release_def deferred_netdev_del_def
      deferred_blockdev_del_def qmpSetup_def emit_def log_event_def getQemuMachine_def machine_def
      addDeviceToBridge_def AddDevice_def removeDeviceFromBridge_def RemoveDevice_def
      refusing_device_add_def good_env_def vfio0_def tap0_def drive0_def
      empty_pci_bridge_def empty_ccw_bridge_def running_pci_def running_ccw_def
      zero_qemu_def zero_HypervisorConfig_def zero_QemuState_def zero_qemuArchBase_def
      QemuCCWVirtio_def HasPrefix_def
      fmt_0x_def fmt_0x_int_def fmt_x.simps fmt_d.simps digit_char_def Let_def upt_rec)

subsection \<open>Creating a sandbox\<close>

lemma storeState_qemuConfig: "qemuConfig (snd (storeState e q)) = qemuConfig q"
  by (simp add: storeState_def emit_def Let_def)

lemma setup_load_qemuConfig: "qemuConfig (snd (setup_load e q)) = qemuConfig q"
  by (simp add: setup_load_def split: sum.splits)

lemma setup_create_qemuConfig: "qemuConfig (snd (setup_create e q)) = qemuConfig q"
  by (simp add: setup_create_def Let_def storeState_qemuConfig split: option.splits)

lemma setup_checks_qemuConfig: "qemuConfig (setup_checks nested q) = qemuConfig q"
  by (simp add: setup_checks_def Let_def)

lemma qemu_setup_qemuConfig:
  "qemuConfig (snd (qemu_setup e sid hc vcStore q0)) = qemuConfig q0"
proof (cases "valid e hc")
  case (Inl err)
  then show ?thesis by (simp add: qemu_setup_def)
next
  case (Inr c)
  let ?q1 = "q0\<lparr>qemu_id := sid, has_store := vcStore, config := c, arch := newQemuArch e c\<rparr>"
  show ?thesis
  proof (cases "InitrdAssetPath e c")
    case (Inl err)
    with Inr show ?thesis by (simp add: qemu_setup_def)
  next
    case initrd: (Inr initrdPath)
    show ?thesis
    proof (cases "ImageAssetPath e c")
      case (Inl err)
      with Inr initrd show ?thesis by (simp add: qemu_setup_def)
    next
      case image: (Inr imagePath)
      let ?q1' = "?q1\<lparr>nvdimmCount := (if initrdPath = '''' \<and> imagePath \<noteq> '''' then 1 else 0)\<rparr>"
      obtain create q2 where load: "setup_load e ?q1' = (create, q2)"
        by (cases "setup_load e ?q1'")
      have q2: "qemuConfig q2 = qemuConfig q0"
        using setup_load_qemuConfig[of e ?q1'] load by simp
      let ?q2' = "q2\<lparr>arch := setBridges (arch q2) (state_Bridges (state q2))\<rparr>"
      obtain r q3 where cr: "(if create then setup_create e ?q2' else (None, ?q2')) = (r, q3)"
        by (cases "if create then setup_create e ?q2' else (None, ?q2')")
      have q3: "qemuConfig q3 = qemuConfig q0"
        using cr q2 setup_create_qemuConfig[of e ?q2'] by (cases create) auto
      have run: "qemu_setup e sid hc vcStore q0
                  = (case r of Some err \<Rightarrow> (Some err, q3)
                     | None \<Rightarrow> (case RunningOnVMM e of Inl err \<Rightarrow> (Some err, q3)
                                | Inr nested \<Rightarrow> (None, setup_checks nested q3)))"
        using Inr initrd image load cr
        by (simp add: qemu_setup_def split del: if_split split: option.splits)
      show ?thesis
        unfolding run using q3
        by (simp add: setup_checks_qemuConfig split: option.splits sum.splits)
    qed
  qed
qed

text \<open>
  C5, as the code has it. Let \<^verbatim>\<open>setup\<close> succeed, and let the configuration it stored ask
  for virtio-fs or for a root directory of file-backed memory, and for booting to be, or
  from, a template. Then \<^verbatim>\<open>createSandbox\<close> returns an error and leaves the launch
  configuration of the controller as it was. The error is that of the first step that
  fails among \<^verbatim>\<open>getQemuMachine\<close>, \<^verbatim>\<open>memoryTopology\<close>, \<^verbatim>\<open>KernelAssetPath\<close> and
  \<^verbatim>\<open>InitrdAssetPath\<close>, and the error \<open>VM templating has been enabled ...\<close> when all
  four succeed.
\<close>

theorem createSandbox_templating_rejected:
  assumes su: "qemu_setup e sid hc vcStore q0 = (None, q)"
    and fs: "SharedFS (config q) = VirtioFS \<or> FileBackedMemRootDir (config q) \<noteq> ''''"
    and tpl: "BootToBeTemplate (config q) \<or> BootFromTemplate (config q)"
  shows "fst (createSandbox e sid hc vcStore q0) \<noteq> None
       \<and> qemuConfig (snd (createSandbox e sid hc vcStore q0)) = qemuConfig q0
       \<and> fst (createSandbox e sid hc vcStore q0)
           = (case getQemuMachine q of
                Inl err \<Rightarrow> Some err
              | Inr m \<Rightarrow>
                  (case memoryTopology e q of
                     Inl err \<Rightarrow> Some err
                   | Inr memory \<Rightarrow>
                       (case KernelAssetPath e (config q) of
                          Inl err \<Rightarrow> Some err
                        | Inr kernelPath \<Rightarrow>
                            (case InitrdAssetPath e (config q) of
                               Inl err \<Rightarrow> Some err
                             | Inr initrdPath \<Rightarrow> Some templating_error))))"
proof -
  have qc: "qemuConfig q = qemuConfig q0"
    using qemu_setup_qemuConfig[of e sid hc vcStore q0] su by simp
  have run: "createSandbox e sid hc vcStore q0
           = ((case getQemuMachine q of
                Inl err \<Rightarrow> Some err
              | Inr m \<Rightarrow>
                  (case memoryTopology e q of
                     Inl err \<Rightarrow> Some err
                   | Inr memory \<Rightarrow>
                       (case KernelAssetPath e (config q) of
                          Inl err \<Rightarrow> Some err
                        | Inr kernelPath \<Rightarrow>
                            (case InitrdAssetPath e (config q) of
                               Inl err \<Rightarrow> Some err
                             | Inr initrdPath \<Rightarrow> Some templating_error)))), q)"
    using su fs tpl
    by (simp add: createSandbox_def Let_def split: sum.splits prod.splits)
  show ?thesis
    unfolding run using qc by (simp split: sum.splits)
qed

theorem createSandbox_templating_rejected_witness:
  "fst (qemu_setup good_env ''testSandbox'' templated_virtiofs True zero_qemu) = None
   \<and> SharedFS (config (snd (qemu_setup good_env ''testSandbox'' templated_virtiofs True zero_qemu)))
       = VirtioFS
   \<and> BootToBeTemplate (config (snd (qemu_setup good_env ''testSandbox'' templated_virtiofs True zero_qemu)))
   \<and> fst (createSandbox good_env ''testSandbox'' templated_virtiofs True zero_qemu)
       = Some templating_error
   \<and> qemuConfig (snd (createSandbox good_env ''testSandbox'' templated_virtiofs True zero_qemu))
       = zero_Config"
proof -
  let ?q = "snd (qemu_setup good_env ''testSandbox'' templated_virtiofs True zero_qemu)"
  have r: "fst (qemu_setup good_env ''testSandbox'' templated_virtiofs True zero_qemu) = None"
    by (simp add: qemu_setup_def setup_load_def setup_create_def setup_checks_def storeState_def
        emit_def good_env_def zero_qemu_def Let_def)
  then have su: "qemu_setup good_env ''testSandbox'' templated_virtiofs True zero_qemu = (None, ?q)"
    by (metis prod.collapse)
  have cfg: "config ?q = templated_virtiofs"
    by (simp add: qemu_setup_def setup_load_def setup_create_def setup_checks_def storeState_def
        emit_def good_env_def zero_qemu_def Let_def enableVhostNet_def disableVhostNet_def
        enableNestingChecks_def disableNestingChecks_def)
  have fs: "SharedFS (config ?q) = VirtioFS" and tp: "BootToBeTemplate (config ?q)"
    unfolding cfg by (simp_all add: templated_virtiofs_def test_config_def)
  have a: "arch ?q = (newQemuArch good_env templated_virtiofs)
                     \<lparr>Bridges := [NewBridge good_env PCI ''pci-bridge-0'' [] 0], vhost := True\<rparr>"
    by (simp add: qemu_setup_def setup_load_def setup_create_def setup_checks_def storeState_def
        emit_def good_env_def zero_qemu_def Let_def enableVhostNet_def disableVhostNet_def
        enableNestingChecks_def disableNestingChecks_def setBridges_def arch_bridges_def
        zero_QemuState_def zero_qemuArchBase_def templated_virtiofs_def test_config_def
        zero_HypervisorConfig_def NewBridge_def fmt_d.simps digit_char_def upt_rec)
  have m: "getQemuMachine ?q = Inr \<lparr>machine_Type = ''pc'', machine_Options = ''accel=kvm''\<rparr>"
    unfolding getQemuMachine_def machine_def a cfg
    by (simp add: good_env_def zero_qemuArchBase_def templated_virtiofs_def test_config_def
        zero_HypervisorConfig_def)
  have mem: "memoryTopology good_env ?q \<noteq> Inl err" for err
    by (simp add: memoryTopology_def hostMemMB_def good_env_def Let_def)
  have k: "KernelAssetPath good_env (config ?q) = Inr ''/vmlinuz''"
    and i: "InitrdAssetPath good_env (config ?q) = Inr ''''"
    by (simp_all add: good_env_def)
  have q0: "qemuConfig zero_qemu = zero_Config" by (simp add: zero_qemu_def)
  from createSandbox_templating_rejected[OF su disjI1[OF fs] disjI1[OF tp]] r fs tp m mem k i q0
  show ?thesis by (simp split: sum.splits)
qed

text \<open>
  The claim as the specification states it, exactly the templating error whenever the
  two conditions hold, fails when an earlier step fails: on a host that reports no
  memory, \<^verbatim>\<open>createSandbox\<close> returns the error of \<^verbatim>\<open>memoryTopology\<close>.
\<close>

theorem createSandbox_templating_counterexample:
  "SharedFS templated_virtiofs = VirtioFS \<and> BootToBeTemplate templated_virtiofs
   \<and> fst (createSandbox no_host_memory ''testSandbox'' templated_virtiofs True zero_qemu)
       = Some (Err ''Error host memory size 0'')"
  by (simp add: createSandbox_def qemu_setup_def setup_load_def setup_create_def setup_checks_def
      storeState_def emit_def no_host_memory_def good_env_def zero_qemu_def Let_def
      enableVhostNet_def disableVhostNet_def enableNestingChecks_def disableNestingChecks_def
      setBridges_def arch_bridges_def zero_QemuState_def zero_qemuArchBase_def
      templated_virtiofs_def test_config_def zero_HypervisorConfig_def NewBridge_def
      getQemuMachine_def machine_def memoryTopology_def hostMemMB_def HasPrefix_def
      fmt_d.simps digit_char_def upt_rec)







end
